theory Spec2Isabelle
  imports Main
begin

section \<open>JavaScript values\<close>

text \<open>
  The handlers of \<^verbatim>\<open>apps/api/src/index.ts\<close> work on untyped JavaScript values: request
  bodies, enrichment results and the rows handed to the event store. A value is
  \<^verbatim>\<open>undefined\<close>, \<^verbatim>\<open>null\<close>, a boolean, a number, a string, an array or a plain object. Numbers
  are restricted to the integers and \<^verbatim>\<open>NaN\<close>; an object is the list of its own enumerable
  properties in enumeration order. A JavaScript object never has two properties of the same
  name, which is the predicate \<open>well_formed\<close> below.
\<close>

datatype jv =
    Undefined
  | Null
  | Bool bool
  | NaN
  | Num int
  | Str string
  | Arr "jv list"
  | Obj "(string \<times> jv) list"

text \<open>Truthiness, as tested by \<^verbatim>\<open>!x\<close>, \<^verbatim>\<open>if (x)\<close>, \<^verbatim>\<open>x || y\<close> and \<^verbatim>\<open>x && y\<close>.\<close>

fun truthy :: "jv \<Rightarrow> bool" where
  "truthy Undefined = False"
| "truthy Null = False"
| "truthy (Bool b) = b"
| "truthy NaN = False"
| "truthy (Num n) = (n \<noteq> 0)"
| "truthy (Str s) = (s \<noteq> [])"
| "truthy (Arr xs) = True"
| "truthy (Obj es) = True"

text \<open>\<^verbatim>\<open>a ?? b\<close>: the right operand only when the left one is \<^verbatim>\<open>undefined\<close> or \<^verbatim>\<open>null\<close>.\<close>

definition nullish :: "jv \<Rightarrow> jv \<Rightarrow> jv" where
  "nullish a b = (if a = Undefined \<or> a = Null then b else a)"

text \<open>\<^verbatim>\<open>a || b\<close>: the right operand when the left one is falsy.\<close>

definition or_else :: "jv \<Rightarrow> jv \<Rightarrow> jv" where
  "or_else a b = (if truthy a then a else b)"

text \<open>
  \<^verbatim>\<open>o.k\<close> on an object: the property's value, \<^verbatim>\<open>undefined\<close> when the object has no such
  property. The values read this way in the source are request bodies and collaborator
  results, which are objects; on other values \<open>get_prop\<close> gives \<^verbatim>\<open>undefined\<close> too, which is
  also what the optional chaining \<^verbatim>\<open>o?.k\<close> gives on \<^verbatim>\<open>undefined\<close> and \<^verbatim>\<open>null\<close>.
\<close>

fun get_prop :: "jv \<Rightarrow> string \<Rightarrow> jv" where
  "get_prop (Obj es) k = (case map_of es k of None \<Rightarrow> Undefined | Some v \<Rightarrow> v)"
| "get_prop v k = Undefined"

text \<open>
  Defining a property: an existing property keeps its place and takes the new value, a new
  one is appended.
\<close>

fun set_prop :: "string \<Rightarrow> jv \<Rightarrow> (string \<times> jv) list \<Rightarrow> (string \<times> jv) list" where
  "set_prop k v [] = [(k, v)]"
| "set_prop k v ((k', v') # es) =
     (if k' = k then (k, v) # es else (k', v') # set_prop k v es)"

text \<open>\<^verbatim>\<open>Object.entries\<close> and \<^verbatim>\<open>Object.fromEntries\<close>.\<close>

fun entries :: "jv \<Rightarrow> (string \<times> jv) list" where
  "entries (Obj es) = es"
| "entries v = []"

definition fromEntries :: "(string \<times> jv) list \<Rightarrow> (string \<times> jv) list" where
  "fromEntries es = foldl (\<lambda>acc (k, v). set_prop k v acc) [] es"

text \<open>
  An object literal \<^verbatim>\<open>{ k: v, ...o, k2: v2 }\<close> defines its properties from left to right;
  a spread defines every own property of its operand (none for \<^verbatim>\<open>undefined\<close> and \<^verbatim>\<open>null\<close>).
\<close>

datatype init = Property string jv | Spread jv

fun define_init :: "(string \<times> jv) list \<Rightarrow> init \<Rightarrow> (string \<times> jv) list" where
  "define_init acc (Property k v) = set_prop k v acc"
| "define_init acc (Spread ob) = foldl (\<lambda>a (k, v). set_prop k v a) acc (entries ob)"

definition object_literal :: "init list \<Rightarrow> jv" where
  "object_literal inits = Obj (foldl define_init [] inits)"

fun well_formed :: "jv \<Rightarrow> bool" where
  "well_formed (Arr xs) = (\<forall>x \<in> set xs. well_formed x)"
| "well_formed (Obj es) = (distinct (map fst es) \<and> (\<forall>e \<in> set es. well_formed (snd e)))"
| "well_formed v = True"

text \<open>The outcome of an awaited call to an external collaborator.\<close>

datatype 'a outcome = Throws | Returns 'a

section \<open>The translation cache\<close>

text \<open>
  \<^verbatim>\<open>translationCache\<close> is a \<^verbatim>\<open>Map<string, { result, timestamp }>\<close>; timestamps are
  \<^verbatim>\<open>Date.now()\<close> readings in milliseconds. \<^verbatim>\<open>JSON.stringify\<close> is a parameter.
\<close>

record cache_entry =
  result :: jv
  timestamp :: int

type_synonym cache = "string \<rightharpoonup> cache_entry"

definition CACHE_DURATION :: int where
  "CACHE_DURATION = 5 * 60 * 1000"

definition getCacheKey :: "(jv \<Rightarrow> string) \<Rightarrow> jv \<Rightarrow> string \<Rightarrow> string \<Rightarrow> string" where
  "getCacheKey stringify content sourceLocale targetLocale =
     (let contentStr = (case content of Str s \<Rightarrow> s | _ \<Rightarrow> stringify content)
      in contentStr @ ''-'' @ sourceLocale @ ''-'' @ targetLocale)"

text \<open>
  \<open>getCachedResult\<close> takes the reading of \<^verbatim>\<open>Date.now()\<close> and returns the looked-up value
  (\<^verbatim>\<open>null\<close> on a miss) with the cache after the lookup.
\<close>

definition getCachedResult :: "cache \<Rightarrow> int \<Rightarrow> string \<Rightarrow> jv \<times> cache" where
  "getCachedResult translationCache now cacheKey =
     (case translationCache cacheKey of
        Some cached \<Rightarrow>
          if now - timestamp cached < CACHE_DURATION then (result cached, translationCache)
          else (Null, translationCache(cacheKey := None))
      | None \<Rightarrow> (Null, translationCache))"

definition setCachedResult :: "cache \<Rightarrow> int \<Rightarrow> string \<Rightarrow> jv \<Rightarrow> cache" where
  "setCachedResult translationCache now cacheKey r =
     translationCache(cacheKey \<mapsto> \<lparr>result = r, timestamp = now\<rparr>)"

section \<open>The quota gate\<close>

text \<open>
  \<^verbatim>\<open>Autumn.check\<close> is a parameter: from the feature and the customer to the outcome of the
  awaited call. Destructuring \<^verbatim>\<open>const { data } = ...\<close> throws on \<^verbatim>\<open>undefined\<close> and \<^verbatim>\<open>null\<close>,
  inside the \<^verbatim>\<open>try\<close>; the \<^verbatim>\<open>catch\<close> returns \<^verbatim>\<open>true\<close>.
\<close>

definition checkQuota :: "(string \<Rightarrow> jv \<Rightarrow> jv outcome) \<Rightarrow> string \<Rightarrow> jv \<Rightarrow> jv" where
  "checkQuota check feature_id customer_id =
     (case check feature_id customer_id of
        Throws \<Rightarrow> Bool True
      | Returns r \<Rightarrow>
          if r = Undefined \<or> r = Null then Bool True
          else nullish (get_prop (get_prop r ''data'') ''allowed'') (Bool False))"

section \<open>The null sanitizer\<close>

fun replaceUndefinedWithNull :: "jv \<Rightarrow> jv" where
  "replaceUndefinedWithNull (Arr xs) = Arr (map replaceUndefinedWithNull xs)"
| "replaceUndefinedWithNull (Obj es) =
     Obj (fromEntries
       (map (\<lambda>(k, v). (k, if v = Undefined then Null else replaceUndefinedWithNull v)) es))"
| "replaceUndefinedWithNull v = v"

text \<open>
  Observers for the sanitizer's properties: the value at a path of keys and indices, the
  skeleton of a value (its nesting, key lists and array lengths, every leaf erased), and
  whether no property of any record inside a value is \<^verbatim>\<open>undefined\<close>.
\<close>

datatype step = Key string | Idx nat

fun at :: "jv \<Rightarrow> step list \<Rightarrow> jv option" where
  "at v [] = Some v"
| "at (Obj es) (Key k # p) = (case map_of es k of None \<Rightarrow> None | Some x \<Rightarrow> at x p)"
| "at (Arr xs) (Idx i # p) = (if i < length xs then at (xs ! i) p else None)"
| "at v (s # p) = None"

fun under_key :: "step list \<Rightarrow> bool" where
  "under_key [] = False"
| "under_key [Key k] = True"
| "under_key [Idx i] = False"
| "under_key (s # p) = under_key p"

fun skeleton :: "jv \<Rightarrow> jv" where
  "skeleton (Arr xs) = Arr (map skeleton xs)"
| "skeleton (Obj es) = Obj (map (\<lambda>(k, v). (k, skeleton v)) es)"
| "skeleton v = Null"

fun props_defined :: "jv \<Rightarrow> bool" where
  "props_defined (Arr xs) = (\<forall>x \<in> set xs. props_defined x)"
| "props_defined (Obj es) = (\<forall>e \<in> set es. snd e \<noteq> Undefined \<and> props_defined (snd e))"
| "props_defined v = True"

section \<open>The timestamp normalizer\<close>

text \<open>
  \<^verbatim>\<open>String(n)\<close> on an integer is its decimal numeral; \<^verbatim>\<open>s.padStart(z, "0")\<close> puts zeros in
  front of a string shorter than \<open>z\<close> and leaves a longer one as it is.
\<close>

definition digit_char :: "nat \<Rightarrow> char" where
  "digit_char n = ''0123456789'' ! n"

fun decimal :: "nat \<Rightarrow> string" where
  "decimal n = (if 10 \<le> n then decimal (n div 10) @ [digit_char (n mod 10)] else [digit_char n])"

definition String :: "int \<Rightarrow> string" where
  "String i = (if 0 \<le> i then decimal (nat i) else CHR ''-'' # decimal (nat (- i)))"

definition padStart :: "string \<Rightarrow> nat \<Rightarrow> char \<Rightarrow> string" where
  "padStart s z c = replicate (z - length s) c @ s"

definition pad :: "nat \<Rightarrow> nat \<Rightarrow> string" where
  "pad n z = padStart (decimal n) z (CHR ''0'')"

text \<open>
  A \<^verbatim>\<open>Date\<close> is either invalid (its time value is \<^verbatim>\<open>NaN\<close>) or has the local-time fields
  that its getters return. The argument of \<open>toCHDateTime64\<close> is a \<^verbatim>\<open>Date\<close> or another
  value; what \<^verbatim>\<open>new Date(v)\<close> makes of a string or number is the parameter \<open>newDate\<close>. A
  \<^verbatim>\<open>Date\<close> object is truthy, also an invalid one.
\<close>

record date_fields =
  getFullYear :: int
  getMonth :: nat
  getDate :: nat
  getHours :: nat
  getMinutes :: nat
  getSeconds :: nat
  getMilliseconds :: nat

datatype js_date = InvalidDate | ValidDate date_fields

datatype date_arg = Value jv | DateObject js_date

fun falsy_date :: "date_arg \<Rightarrow> bool" where
  "falsy_date (Value v) = (\<not> truthy v)"
| "falsy_date (DateObject d) = False"

fun new_Date :: "(jv \<Rightarrow> js_date) \<Rightarrow> date_arg \<Rightarrow> js_date" where
  "new_Date newDate (Value v) = newDate v"
| "new_Date newDate (DateObject d) = d"

definition toCHDateTime64 :: "(jv \<Rightarrow> js_date) \<Rightarrow> date_arg \<Rightarrow> jv" where
  "toCHDateTime64 newDate date =
     (if falsy_date date then Null
      else case new_Date newDate date of
        InvalidDate \<Rightarrow> Null
      | ValidDate d \<Rightarrow>
          Str (String (getFullYear d) @ ''-'' @ pad (getMonth d + 1) 2 @ ''-''
               @ pad (getDate d) 2 @ '' '' @ pad (getHours d) 2 @ '':''
               @ pad (getMinutes d) 2 @ '':'' @ pad (getSeconds d) 2 @ ''.''
               @ pad (getMilliseconds d) 3))"

text \<open>
  The ranges of the getters of a valid \<^verbatim>\<open>Date\<close>, and the format of the specification
  written out digit by digit: a four-digit year, two digits for month, day, hour, minute and
  second, three for the milliseconds.
\<close>

definition in_range :: "date_fields \<Rightarrow> bool" where
  "in_range d \<longleftrightarrow> getMonth d < 12 \<and> 1 \<le> getDate d \<and> getDate d \<le> 31 \<and> getHours d < 24
     \<and> getMinutes d < 60 \<and> getSeconds d < 60 \<and> getMilliseconds d < 1000"

definition two_digits :: "nat \<Rightarrow> string" where
  "two_digits n = [digit_char (n div 10), digit_char (n mod 10)]"

definition three_digits :: "nat \<Rightarrow> string" where
  "three_digits n = [digit_char (n div 100), digit_char (n div 10 mod 10), digit_char (n mod 10)]"

definition four_digits :: "nat \<Rightarrow> string" where
  "four_digits n = [digit_char (n div 1000), digit_char (n div 100 mod 10),
     digit_char (n div 10 mod 10), digit_char (n mod 10)]"

definition spec_tail :: "date_fields \<Rightarrow> string" where
  "spec_tail d = ''-'' @ two_digits (getMonth d + 1) @ ''-''
     @ two_digits (getDate d) @ '' '' @ two_digits (getHours d) @ '':''
     @ two_digits (getMinutes d) @ '':'' @ two_digits (getSeconds d) @ ''.''
     @ three_digits (getMilliseconds d)"

definition spec_format :: "date_fields \<Rightarrow> string" where
  "spec_format d = four_digits (nat (getFullYear d)) @ spec_tail d"

section \<open>The ingestion handlers\<close>

text \<open>
  What a request meets outside the handler: the entitlement service, the request's headers
  and address, the user-agent parser, the geo lookup, the domain parser, the clock, the
  identifier generator, the event store (\<open>insert_error\<close> is the message of the error that
  \<^verbatim>\<open>clickhouse.insert\<close> throws, if it throws) and the user derived from the access token.
\<close>

record env =
  autumn_check :: "string \<Rightarrow> jv \<Rightarrow> jv outcome"
  user_agent_header :: jv
  UAParser :: "jv \<Rightarrow> jv"
  extractIpFromRequest :: jv
  getGeoData :: "jv \<Rightarrow> jv"
  parseDomain :: "jv \<Rightarrow> jv"
  new_date_now :: date_fields
  randomUUID :: string
  newDate :: "jv \<Rightarrow> js_date"
  insert_error :: "string option"
  userId :: jv

text \<open>
  The effects: the calls of \<^verbatim>\<open>clickhouse.insert\<close> (table and the one row of \<^verbatim>\<open>values\<close>) and
  the calls of \<open>sendRealTimeEvent\<close> (recipient of the channel \<^verbatim>\<open>user:<id>\<close>, event, payload;
  a failing send is logged and swallowed there). A response is the status (\<^verbatim>\<open>set.status\<close>,
  200 when the handler does not set it) and the returned body.
\<close>

record world =
  inserts :: "(string \<times> jv) list"
  events :: "(jv \<times> string \<times> jv) list"

record response =
  http_status :: nat
  http_body :: jv

definition clickhouse_insert :: "string \<Rightarrow> jv \<Rightarrow> world \<Rightarrow> world" where
  "clickhouse_insert table row w = w\<lparr>inserts := inserts w @ [(table, row)]\<rparr>"

definition sendRealTimeEvent :: "jv \<Rightarrow> string \<Rightarrow> jv \<Rightarrow> world \<Rightarrow> world" where
  "sendRealTimeEvent uid event payload w = w\<lparr>events := events w @ [(uid, event, payload)]\<rparr>"

definition quota_exceeded :: "string \<Rightarrow> response" where
  "quota_exceeded msg =
     \<lparr>http_status = 429, http_body = Obj [(''status'', Str ''error''), (''message'', Str msg)]\<rparr>"

definition errorData :: "env \<Rightarrow> jv \<Rightarrow> jv" where
  "errorData e body =
     (let userAgent = or_else (user_agent_header e) (Str []);
          uaResult = UAParser e userAgent;
          ip = extractIpFromRequest e;
          geo = getGeoData e ip;
          domainInfo = (if truthy (get_prop body ''url'') then parseDomain e (get_prop body ''url'')
                        else Null);
          now = DateObject (ValidDate (new_date_now e))
      in object_literal [
        Property ''id'' (Str (randomUUID e)),
        Spread body,
        Property ''tags'' (nullish (get_prop body ''tags'') (Arr [])),
        Property ''occurrence_count'' (nullish (get_prop body ''occurrence_count'') (Num 1)),
        Property ''source'' (or_else (get_prop body ''source'') (get_prop domainInfo ''domain'')),
        Property ''user_agent'' userAgent,
        Property ''browser_name''
          (nullish (get_prop body ''browser_name'') (get_prop (get_prop uaResult ''browser'') ''name'')),
        Property ''browser_version''
          (nullish (get_prop body ''browser_version'')
             (get_prop (get_prop uaResult ''browser'') ''version'')),
        Property ''os_name''
          (nullish (get_prop body ''os_name'') (get_prop (get_prop uaResult ''os'') ''name'')),
        Property ''os_version''
          (nullish (get_prop body ''os_version'') (get_prop (get_prop uaResult ''os'') ''version'')),
        Property ''device_type''
          (nullish (nullish (get_prop body ''device_type'')
             (get_prop (get_prop uaResult ''device'') ''type'')) (Str ''desktop'')),
        Property ''ip_address'' ip,
        Property ''country'' (get_prop geo ''country''),
        Property ''region'' (get_prop geo ''region''),
        Property ''city'' (get_prop geo ''city''),
        Property ''org'' (get_prop geo ''org''),
        Property ''postal'' (get_prop geo ''postal''),
        Property ''loc'' (get_prop geo ''loc''),
        Property ''first_occurrence''
          (or_else (toCHDateTime64 (newDate e) (Value (get_prop body ''first_occurrence'')))
             (toCHDateTime64 (newDate e) now)),
        Property ''last_occurrence''
          (or_else (toCHDateTime64 (newDate e) (Value (get_prop body ''last_occurrence'')))
             (toCHDateTime64 (newDate e) now)),
        Property ''resolved_at'' (toCHDateTime64 (newDate e) (Value (get_prop body ''resolved_at''))),
        Property ''created_at'' (toCHDateTime64 (newDate e) now),
        Property ''updated_at'' (toCHDateTime64 (newDate e) now)])"

definition error_ingested :: "jv \<Rightarrow> jv" where
  "error_ingested r = object_literal
     (map (\<lambda>k. Property k (get_prop r k))
        [''id'', ''message'', ''severity'', ''error_type'', ''source'', ''client_id'',
         ''created_at'', ''url'', ''browser_name'', ''os_name'', ''device_type'', ''country'',
         ''city''])"

definition ingest :: "env \<Rightarrow> jv \<Rightarrow> world \<Rightarrow> response \<times> world" where
  "ingest e body w =
     (let isAllowed = checkQuota (autumn_check e) ''error'' (get_prop body ''client_id'')
      in if \<not> truthy isAllowed then (quota_exceeded ''Quota exceeded for error ingestion.'', w)
         else
           let sanitizedErrorData = replaceUndefinedWithNull (errorData e body);
               w1 = clickhouse_insert ''errors'' sanitizedErrorData w
           in case insert_error e of
                Some err \<Rightarrow>
                  (\<lparr>http_status = 200,
                    http_body = Obj [(''status'', Str ''error''),
                                     (''message'', Str ''Failed to process error'')]\<rparr>, w1)
              | None \<Rightarrow>
                  (\<lparr>http_status = 200,
                    http_body = Obj [(''status'', Str ''success''),
                                     (''id'', get_prop sanitizedErrorData ''id'')]\<rparr>,
                   if truthy (userId e)
                   then sendRealTimeEvent (userId e) ''error_ingested''
                          (error_ingested sanitizedErrorData) w1
                   else w1))"

definition logData :: "env \<Rightarrow> jv \<Rightarrow> jv" where
  "logData e body = object_literal [
     Property ''id'' (Str (randomUUID e)),
     Spread body,
     Property ''created_at'' (toCHDateTime64 (newDate e) (DateObject (ValidDate (new_date_now e))))]"

definition log_ingested :: "jv \<Rightarrow> jv" where
  "log_ingested r = object_literal
     (map (\<lambda>k. Property k (get_prop r k))
        [''id'', ''message'', ''level'', ''source'', ''client_id'', ''created_at'', ''context'',
         ''environment'', ''session_id'', ''user_id''])"

definition log :: "env \<Rightarrow> jv \<Rightarrow> world \<Rightarrow> response \<times> world" where
  "log e body w =
     (let isAllowed = checkQuota (autumn_check e) ''log'' (get_prop body ''client_id'')
      in if \<not> truthy isAllowed then (quota_exceeded ''Quota exceeded for log ingestion.'', w)
         else
           let row = logData e body;
               w1 = clickhouse_insert ''logs'' row w
           in case insert_error e of
                Some err \<Rightarrow>
                  (\<lparr>http_status = 200,
                    http_body = Obj [(''status'', Str ''error''),
                                     (''message'', Str ''Failed to process log'')]\<rparr>, w1)
              | None \<Rightarrow>
                  (\<lparr>http_status = 200,
                    http_body = Obj [(''status'', Str ''success''), (''id'', get_prop row ''id'')]\<rparr>,
                   sendRealTimeEvent (get_prop body ''client_id'') ''new-log'' row
                     (if truthy (userId e)
                      then sendRealTimeEvent (userId e) ''log_ingested'' (log_ingested row) w1
                      else w1)))"

text \<open>
  \<^verbatim>\<open>/track-404\<close> has no \<^verbatim>\<open>try\<close>: an error thrown by the insert reaches \<^verbatim>\<open>onError\<close>, which
  answers 401 when the message contains \<^verbatim>\<open>Unauthorized\<close> and 500 otherwise.
\<close>

definition str_includes :: "string \<Rightarrow> string \<Rightarrow> bool" where
  "str_includes s t = list_ex (\<lambda>i. take (length t) (drop i s) = t) [0 ..< Suc (length s)]"

definition onError :: "string \<Rightarrow> response" where
  "onError msg =
     (let errorMessage = (if msg = [] then ''An unknown error occurred'' else msg)
      in if str_includes errorMessage ''Unauthorized''
         then \<lparr>http_status = 401,
               http_body = Obj [(''status'', Str ''error''), (''message'', Str errorMessage)]\<rparr>
         else \<lparr>http_status = 500,
               http_body = Obj [(''status'', Str ''error''),
                                (''message'', Str ''An internal error occurred.'')]\<rparr>)"

definition notFoundData :: "env \<Rightarrow> jv \<Rightarrow> jv" where
  "notFoundData e body =
     (let userAgent = or_else (user_agent_header e) (Str []);
          ip = extractIpFromRequest e;
          geo = getGeoData e ip
      in object_literal [
        Property ''id'' (Str (randomUUID e)),
        Spread body,
        Property ''user_agent'' userAgent,
        Property ''ip_address'' ip,
        Property ''country'' (get_prop geo ''country''),
        Property ''region'' (get_prop geo ''region''),
        Property ''city'' (get_prop geo ''city''),
        Property ''created_at''
          (toCHDateTime64 (newDate e) (DateObject (ValidDate (new_date_now e))))])"

definition track_404 :: "env \<Rightarrow> jv \<Rightarrow> world \<Rightarrow> response \<times> world" where
  "track_404 e body w =
     (let isAllowed = checkQuota (autumn_check e) ''404_page_tracking'' (get_prop body ''client_id'')
      in if \<not> truthy isAllowed then (quota_exceeded ''Quota exceeded for 404 tracking.'', w)
         else
           let data = notFoundData e body;
               cleanedData = replaceUndefinedWithNull data;
               w1 = clickhouse_insert ''not_found_pages'' cleanedData w
           in case insert_error e of
                Some err \<Rightarrow> (onError err, w1)
              | None \<Rightarrow>
                  (\<lparr>http_status = 200,
                    http_body = Obj [(''status'', Str ''success''), (''id'', get_prop data ''id'')]\<rparr>,
                   sendRealTimeEvent (get_prop body ''client_id'') ''new-404'' cleanedData w1))"

section \<open>The translation handlers\<close>

text \<open>
  The translation service (\<^verbatim>\<open>lingoDotDev.localizeText\<close>, \<^verbatim>\<open>localizeObject\<close>: input, source
  locale, target locale), \<^verbatim>\<open>JSON.stringify\<close> and the two readings of \<^verbatim>\<open>Date.now()\<close>, in
  \<open>getCachedResult\<close> and in \<open>setCachedResult\<close>, are parameters. The state is the cache and
  the list of calls made to the translation service. The locale fields of a body are
  strings when present, as the handlers' type annotations say.
\<close>

record translator =
  localizeText :: "jv \<Rightarrow> string \<Rightarrow> string \<Rightarrow> jv outcome"
  localizeObject :: "jv \<Rightarrow> string \<Rightarrow> string \<Rightarrow> jv outcome"
  stringify :: "jv \<Rightarrow> string"
  now_lookup :: int
  now_store :: int

record lstate =
  tcache :: cache
  translator_calls :: "(jv \<times> string \<times> string) list"

record text_body =
  key :: jv
  language :: "string option"

record object_body =
  content :: jv
  sourceLocale :: "string option"
  targetLocale :: "string option"

definition default_en :: "string option \<Rightarrow> string" where
  "default_en l = (case l of None \<Rightarrow> ''en'' | Some s \<Rightarrow> s)"

fun typeof_object :: "jv \<Rightarrow> bool" where
  "typeof_object Null = True"
| "typeof_object (Arr xs) = True"
| "typeof_object (Obj es) = True"
| "typeof_object v = False"

definition localization :: "translator \<Rightarrow> text_body \<Rightarrow> lstate \<Rightarrow> response \<times> lstate" where
  "localization t b s =
     (let lang = default_en (language b)
      in if \<not> truthy (key b)
         then (\<lparr>http_status = 400, http_body = Obj [(''error'', Str ''Key is required'')]\<rparr>, s)
         else
           let target = (if lang = [] then ''en'' else lang);
               cacheKey = getCacheKey (stringify t) (key b) ''en'' target;
               (cachedResult, c1) = getCachedResult (tcache s) (now_lookup t) cacheKey
           in if truthy cachedResult
              then (\<lparr>http_status = 200, http_body = Obj [(''result'', cachedResult)]\<rparr>,
                    s\<lparr>tcache := c1\<rparr>)
              else
                let s1 = s\<lparr>tcache := c1,
                           translator_calls := translator_calls s @ [(key b, ''en'', target)]\<rparr>
                in case localizeText t (key b) ''en'' target of
                     Throws \<Rightarrow>
                       (\<lparr>http_status = 500,
                         http_body = Obj [(''error'', Str ''Translation failed'')]\<rparr>, s1)
                   | Returns r \<Rightarrow>
                       (\<lparr>http_status = 200, http_body = Obj [(''result'', r)]\<rparr>,
                        s1\<lparr>tcache := setCachedResult c1 (now_store t) cacheKey r\<rparr>))"

definition localization_object ::
  "translator \<Rightarrow> object_body \<Rightarrow> lstate \<Rightarrow> response \<times> lstate" where
  "localization_object t b s =
     (let src = default_en (sourceLocale b);
          tgt = default_en (targetLocale b)
      in if \<not> truthy (content b) \<or> \<not> typeof_object (content b)
         then (\<lparr>http_status = 400,
                http_body = Obj [(''error'', Str ''Content object is required'')]\<rparr>, s)
         else
           let cacheKey = getCacheKey (stringify t) (content b) src tgt;
               (cachedResult, c1) = getCachedResult (tcache s) (now_lookup t) cacheKey
           in if truthy cachedResult
              then (\<lparr>http_status = 200, http_body = Obj [(''result'', cachedResult)]\<rparr>,
                    s\<lparr>tcache := c1\<rparr>)
              else
                let s1 = s\<lparr>tcache := c1,
                           translator_calls := translator_calls s @ [(content b, src, ''ar'')]\<rparr>
                in case localizeObject t (content b) src ''ar'' of
                     Throws \<Rightarrow>
                       (\<lparr>http_status = 500,
                         http_body = Obj [(''error'', Str ''Object translation failed'')]\<rparr>, s1)
                   | Returns r \<Rightarrow>
                       (\<lparr>http_status = 200, http_body = Obj [(''result'', r)]\<rparr>,
                        s1\<lparr>tcache := setCachedResult c1 (now_store t) cacheKey r\<rparr>))"

section \<open>Example requests and collaborators\<close>

definition check_allows :: "string \<Rightarrow> jv \<Rightarrow> jv outcome" where
  "check_allows feature_id customer_id = Returns (Obj [(''data'', Obj [(''allowed'', Bool True)])])"

definition check_denies :: "string \<Rightarrow> jv \<Rightarrow> jv outcome" where
  "check_denies feature_id customer_id = Returns (Obj [(''data'', Obj [(''allowed'', Bool False)])])"

definition check_no_allowed :: "string \<Rightarrow> jv \<Rightarrow> jv outcome" where
  "check_no_allowed feature_id customer_id = Returns (Obj [(''data'', Obj [])])"

definition check_throws :: "string \<Rightarrow> jv \<Rightarrow> jv outcome" where
  "check_throws feature_id customer_id = Throws"

definition empty_cache :: cache where
  "empty_cache = Map.empty"

definition one_entry_cache :: cache where
  "one_entry_cache = empty_cache(''hello-en-fr'' \<mapsto> \<lparr>result = Str ''bonjour'', timestamp = 1000\<rparr>)"

definition nested_sample :: jv where
  "nested_sample = Obj [(''a'', Undefined),
     (''b'', Arr [Undefined, Num 1, Obj [(''c'', Undefined), (''d'', Str ''x'')]])]"

text \<open>
  The three ingestion routes with the feature tag each handler passes to the quota gate.
\<close>

datatype route = Ingest | Log | Track404

fun feature_of :: "route \<Rightarrow> string" where
  "feature_of Ingest = ''error''"
| "feature_of Log = ''log''"
| "feature_of Track404 = ''404_page_tracking''"

fun handle :: "route \<Rightarrow> env \<Rightarrow> jv \<Rightarrow> world \<Rightarrow> response \<times> world" where
  "handle Ingest = ingest"
| "handle Log = log"
| "handle Track404 = track_404"

text \<open>
  A translation service that answers with its own arguments, so that the answer shows which
  text and locales it was asked for; \<^verbatim>\<open>JSON.stringify\<close> on the one object used below.
\<close>

definition echo_translate :: "jv \<Rightarrow> string \<Rightarrow> string \<Rightarrow> jv outcome" where
  "echo_translate input src tgt = Returns (Arr [input, Str src, Str tgt])"

definition greeting :: jv where
  "greeting = Obj [(''greeting'', Str ''hello'')]"

definition sample_stringify :: "jv \<Rightarrow> string" where
  "sample_stringify v = (if v = greeting then ''{\"greeting\":\"hello\"}'' else ''null'')"

definition translator_at :: "int \<Rightarrow> translator" where
  "translator_at n = \<lparr>localizeText = echo_translate, localizeObject = echo_translate,
     stringify = sample_stringify, now_lookup = n, now_store = n\<rparr>"

definition empty_lstate :: lstate where
  "empty_lstate = \<lparr>tcache = empty_cache, translator_calls = []\<rparr>"

definition first_text :: text_body where
  "first_text = \<lparr>key = Str ''a'', language = Some ''en-fr''\<rparr>"

definition second_text :: text_body where
  "second_text = \<lparr>key = Str ''a-en'', language = Some ''fr''\<rparr>"

definition greeting_to_fr :: object_body where
  "greeting_to_fr = \<lparr>content = greeting, sourceLocale = Some ''en'', targetLocale = Some ''fr''\<rparr>"

text \<open>
  A request's surroundings for the examples: a desktop browser whose parse has no OS version
  and no device type, a geo lookup that knows country and city only, the clock of the
  specification's example (2024-01-02 03:04:05.006, local time) and a \<^verbatim>\<open>new Date\<close> that
  parses one ISO string.
\<close>

definition sample_ua :: "jv \<Rightarrow> jv" where
  "sample_ua userAgent = Obj [
     (''browser'', Obj [(''name'', Str ''Chrome''), (''version'', Str ''126.0'')]),
     (''os'', Obj [(''name'', Str ''Linux'')]),
     (''device'', Obj [])]"

definition sample_geo :: "jv \<Rightarrow> jv" where
  "sample_geo ip = Obj [(''country'', Str ''US''), (''city'', Str ''Austin'')]"

definition sample_domain :: "jv \<Rightarrow> jv" where
  "sample_domain url = Obj [(''domain'', Str ''example.com'')]"

definition sample_now :: date_fields where
  "sample_now = \<lparr>getFullYear = 2024, getMonth = 0, getDate = 2, getHours = 3, getMinutes = 4,
     getSeconds = 5, getMilliseconds = 6\<rparr>"

definition year_999 :: date_fields where
  "year_999 = \<lparr>getFullYear = 999, getMonth = 0, getDate = 2, getHours = 3, getMinutes = 4,
     getSeconds = 5, getMilliseconds = 6\<rparr>"

definition sample_newDate :: "jv \<Rightarrow> js_date" where
  "sample_newDate v =
     (if v = Str ''2024-01-02T03:04:05.006'' then ValidDate sample_now
      else if v = Str ''0999-01-02T03:04:05.006'' then ValidDate year_999
      else InvalidDate)"

definition env_with :: "(string \<Rightarrow> jv \<Rightarrow> jv outcome) \<Rightarrow> string option \<Rightarrow> env" where
  "env_with chk ins = \<lparr>autumn_check = chk, user_agent_header = Str ''Mozilla/5.0'',
     UAParser = sample_ua, extractIpFromRequest = Str ''203.0.113.7'', getGeoData = sample_geo,
     parseDomain = sample_domain, new_date_now = sample_now, randomUUID = ''id-1'',
     newDate = sample_newDate, insert_error = ins, userId = Null\<rparr>"

definition empty_world :: world where
  "empty_world = \<lparr>inserts = [], events = []\<rparr>"

definition error_body :: jv where
  "error_body = Obj [(''client_id'', Str ''c1''), (''message'', Str ''boom'')]"

definition error_body_overrides :: jv where
  "error_body_overrides = Obj [(''client_id'', Str ''c1''), (''message'', Str ''boom''),
     (''browser_name'', Str ''Firefox''), (''country'', Str ''FR'')]"

definition log_body :: jv where
  "log_body = Obj [(''client_id'', Str ''c1''), (''message'', Str ''hi''), (''level'', Str ''info'')]"

definition log_body_undefined_source :: jv where
  "log_body_undefined_source =
     Obj [(''client_id'', Str ''c1''), (''message'', Str ''hi''), (''source'', Undefined)]"

text \<open>
  The enrichment fields of an error event: the five that the handler takes from the body
  before the user-agent parse, with the place of each in the parse result, and the six
  geolocation fields.
\<close>

definition ua_fields :: "string list" where
  "ua_fields = [''browser_name'', ''browser_version'', ''os_name'', ''os_version'', ''device_type'']"

definition geo_fields :: "string list" where
  "geo_fields = [''country'', ''region'', ''city'', ''org'', ''postal'', ''loc'']"

definition ua_derived :: "env \<Rightarrow> string \<Rightarrow> jv" where
  "ua_derived e k =
     (let uaResult = UAParser e (or_else (user_agent_header e) (Str []))
      in if k = ''browser_name'' then get_prop (get_prop uaResult ''browser'') ''name''
         else if k = ''browser_version'' then get_prop (get_prop uaResult ''browser'') ''version''
         else if k = ''os_name'' then get_prop (get_prop uaResult ''os'') ''name''
         else if k = ''os_version'' then get_prop (get_prop uaResult ''os'') ''version''
         else nullish (get_prop (get_prop uaResult ''device'') ''type'') (Str ''desktop''))"

definition geo_derived :: "env \<Rightarrow> string \<Rightarrow> jv" where
  "geo_derived e k = get_prop (getGeoData e (extractIpFromRequest e)) k"

text \<open>What \<open>replaceUndefinedWithNull\<close> makes of the value of a record's property.\<close>

definition sanitized_value :: "jv \<Rightarrow> jv" where
  "sanitized_value v = (if v = Undefined then Null else replaceUndefinedWithNull v)"

section \<open>Properties of the null sanitizer\<close>

text \<open>
  On the entries of a JavaScript object, whose keys are distinct, \<open>fromEntries\<close> gives the
  entries back, and the sanitizer maps over them.
\<close>

lemma set_prop_fresh: "k \<notin> fst ` set es \<Longrightarrow> set_prop k v es = es @ [(k, v)]"
  by (induction es) auto

lemma foldl_set_prop_distinct:
  "distinct (map fst (acc @ es)) \<Longrightarrow>
   foldl (\<lambda>acc (k, v). set_prop k v acc) acc es = acc @ es"
proof (induction es arbitrary: acc)
  case Nil
  then show ?case by simp
next
  case (Cons e es)
  obtain k v where e: "e = (k, v)" by (cases e)
  from Cons.prems have fresh: "k \<notin> fst ` set acc" by (auto simp: e)
  from Cons.prems have "distinct (map fst ((acc @ [(k, v)]) @ es))" by (simp add: e)
  from Cons.IH[OF this] show ?case by (simp add: e set_prop_fresh[OF fresh])
qed

lemma fromEntries_distinct: "distinct (map fst es) \<Longrightarrow> fromEntries es = es"
  using foldl_set_prop_distinct[of "[]" es] by (simp add: fromEntries_def)

lemma map_fst_entries: "map fst (map (\<lambda>(k, v). (k, f v)) es) = map fst es"
  by (induction es) auto

lemma map_of_entries: "map_of (map (\<lambda>(k, v). (k, f v)) es) k = map_option f (map_of es k)"
  by (induction es) auto

lemma sanitize_obj:
  "distinct (map fst es) \<Longrightarrow>
   replaceUndefinedWithNull (Obj es) =
   Obj (map (\<lambda>(k, v). (k, if v = Undefined then Null else replaceUndefinedWithNull v)) es)"
proof -
  assume d: "distinct (map fst es)"
  let ?f = "\<lambda>v. if v = Undefined then Null else replaceUndefinedWithNull v"
  have "distinct (map fst (map (\<lambda>(k, v). (k, ?f v)) es))"
    using d by (simp only: map_fst_entries)
  then show ?thesis by (simp add: fromEntries_distinct)
qed

lemma sanitize_eq_Undefined: "replaceUndefinedWithNull v = Undefined \<Longrightarrow> v = Undefined"
  by (cases v) auto

lemma set_set_prop: "set (set_prop k v es) \<subseteq> insert (k, v) (set es)"
  by (induction es) (auto split: if_splits)

lemma set_foldl_set_prop:
  "set (foldl (\<lambda>acc (k, v). set_prop k v acc) acc es) \<subseteq> set acc \<union> set es"
proof (induction es arbitrary: acc)
  case Nil
  then show ?case by simp
next
  case (Cons e es)
  obtain k v where e: "e = (k, v)" by (cases e)
  show ?case using Cons.IH[of "set_prop k v acc"] set_set_prop[of k v acc]
    by (auto simp: e)
qed

lemma set_fromEntries: "set (fromEntries es) \<subseteq> set es"
  using set_foldl_set_prop[of "[]" es] by (simp add: fromEntries_def)

lemma sanitize_props_defined: "props_defined (replaceUndefinedWithNull v)"
proof (induction v rule: replaceUndefinedWithNull.induct)
  case (1 xs)
  then show ?case by simp
next
  case (2 es)
  let ?f = "\<lambda>v. if v = Undefined then Null else replaceUndefinedWithNull v"
  have "snd e \<noteq> Undefined \<and> props_defined (snd e)"
    if "e \<in> set (fromEntries (map (\<lambda>(k, v). (k, ?f v)) es))" for e
  proof -
    from that set_fromEntries have "e \<in> set (map (\<lambda>(k, v). (k, ?f v)) es)" by blast
    then obtain k v where kv: "(k, v) \<in> set es" and e: "e = (k, ?f v)" by auto
    show ?thesis
    proof (cases "v = Undefined")
      case True
      then show ?thesis by (simp add: e)
    next
      case False
      with 2 kv have "props_defined (replaceUndefinedWithNull v)" by blast
      with False show ?thesis by (auto simp: e dest: sanitize_eq_Undefined)
    qed
  qed
  then show ?case by simp
qed simp_all

lemma sanitize_skeleton: "well_formed v \<Longrightarrow> skeleton (replaceUndefinedWithNull v) = skeleton v"
proof (induction v rule: replaceUndefinedWithNull.induct)
  case (1 xs)
  then show ?case by simp
next
  case (2 es)
  then have d: "distinct (map fst es)" by simp
  have "\<And>k v. (k, v) \<in> set es \<Longrightarrow>
     skeleton (if v = Undefined then Null else replaceUndefinedWithNull v) = skeleton v"
    using 2 by fastforce
  then show ?case by (simp add: sanitize_obj[OF d] del: replaceUndefinedWithNull.simps) auto
qed simp_all

lemma sanitize_fixed: "well_formed v \<Longrightarrow> props_defined v \<Longrightarrow> replaceUndefinedWithNull v = v"
proof (induction v rule: replaceUndefinedWithNull.induct)
  case (1 xs)
  then show ?case by (simp add: map_idI)
next
  case (2 es)
  then have d: "distinct (map fst es)" by simp
  have "\<And>e. e \<in> set es \<Longrightarrow>
     (case e of (k, v) \<Rightarrow> (k, if v = Undefined then Null else replaceUndefinedWithNull v)) = e"
    using 2 by fastforce
  then show ?case
    by (simp add: sanitize_obj[OF d] map_idI del: replaceUndefinedWithNull.simps)
qed simp_all

lemma sanitize_at:
  "well_formed v \<Longrightarrow>
   at (replaceUndefinedWithNull v) p =
   map_option (\<lambda>x. if x = Undefined \<and> under_key p then Null else replaceUndefinedWithNull x)
     (at v p)"
proof (induction v p rule: at.induct)
  case (1 v)
  then show ?case by simp
next
  case (2 es k p)
  then have d: "distinct (map fst es)" by simp
  let ?f = "\<lambda>v. if v = Undefined then Null else replaceUndefinedWithNull v"
  show ?case
  proof (cases "map_of es k")
    case None
    then show ?thesis
      by (simp add: sanitize_obj[OF d] map_of_entries del: replaceUndefinedWithNull.simps)
  next
    case (Some x)
    then have mem: "(k, x) \<in> set es" by (rule map_of_SomeD)
    with 2 have wx: "well_formed x" by auto
    have step: "at (replaceUndefinedWithNull (Obj es)) (Key k # p) = at (?f x) p"
      using Some
      by (simp add: sanitize_obj[OF d] map_of_entries del: replaceUndefinedWithNull.simps)
    show ?thesis
    proof (cases "x = Undefined")
      case True
      then show ?thesis using Some step by (cases p) auto
    next
      case False
      have uk: "p \<noteq> [] \<Longrightarrow> under_key (Key k # p) = under_key p" by (cases p) auto
      from False show ?thesis
        using Some step "2.IH"[OF Some wx] by (cases p) (auto simp: uk)
    qed
  qed
next
  case (3 xs i p)
  show ?case
  proof (cases "i < length xs")
    case True
    then have wx: "well_formed (xs ! i)" using 3 by simp
    have uk: "p \<noteq> [] \<Longrightarrow> under_key (Idx i # p) = under_key p" by (cases p) auto
    from True show ?thesis using "3.IH"[OF True wx] by (cases p) (auto simp: uk)
  next
    case False
    then show ?thesis by simp
  qed
qed simp_all

text \<open>
  \<^bold>\<open>C5\<close> (amended). For every nested value (arrays, keyed records, scalars, at any depth) the
  sanitizer replaces every \<^verbatim>\<open>undefined\<close> that is the value of a record's property with
  \<^verbatim>\<open>null\<close>, and changes nothing else: the nesting, the key lists and the array lengths and
  order are the same (the skeletons are equal); the value at every path is the sanitized
  value of the input at that path, \<^verbatim>\<open>null\<close> where the input has \<^verbatim>\<open>undefined\<close> under a key;
  no property is \<^verbatim>\<open>undefined\<close> afterwards; a value without \<^verbatim>\<open>undefined\<close> properties is
  returned as it is. An \<^verbatim>\<open>undefined\<close> element of an array (a path ending in an index) and
  an \<^verbatim>\<open>undefined\<close> argument stay \<^verbatim>\<open>undefined\<close>: \<open>replaceUndefinedWithNull\<close> returns a
  falsy argument unchanged and \<^verbatim>\<open>map\<close> calls it on every element.
\<close>

theorem sanitizer_replaces_undefined_properties:
  assumes "well_formed v"
  shows "skeleton (replaceUndefinedWithNull v) = skeleton v
    \<and> (\<forall>p. at (replaceUndefinedWithNull v) p =
          map_option (\<lambda>x. if x = Undefined \<and> under_key p then Null
                           else replaceUndefinedWithNull x) (at v p))
    \<and> props_defined (replaceUndefinedWithNull v)
    \<and> (props_defined v \<longrightarrow> replaceUndefinedWithNull v = v)"
  using assms sanitize_skeleton sanitize_at sanitize_props_defined sanitize_fixed by blast

text \<open>The theorem at a record with an \<^verbatim>\<open>undefined\<close> property, array element and nested property.\<close>

theorem sanitizer_replaces_undefined_properties_witness:
  "well_formed nested_sample
   \<and> skeleton (replaceUndefinedWithNull nested_sample) = skeleton nested_sample
   \<and> at (replaceUndefinedWithNull nested_sample) [Key ''a''] = Some Null
   \<and> at (replaceUndefinedWithNull nested_sample) [Key ''b'', Idx 0] = Some Undefined
   \<and> at (replaceUndefinedWithNull nested_sample) [Key ''b'', Idx 2, Key ''c''] = Some Null
   \<and> at (replaceUndefinedWithNull nested_sample) [Key ''b'', Idx 2, Key ''d''] = Some (Str ''x'')
   \<and> props_defined (replaceUndefinedWithNull nested_sample)"
proof -
  have wf: "well_formed nested_sample" by (simp add: nested_sample_def)
  note t = sanitizer_replaces_undefined_properties[OF wf]
  have a: "at nested_sample [Key ''a''] = Some Undefined"
    and b: "at nested_sample [Key ''b'', Idx 0] = Some Undefined"
    and c: "at nested_sample [Key ''b'', Idx 2, Key ''c''] = Some Undefined"
    and d: "at nested_sample [Key ''b'', Idx 2, Key ''d''] = Some (Str ''x'')"
    by (simp_all add: nested_sample_def)
  from t have p: "\<And>p. at (replaceUndefinedWithNull nested_sample) p =
          map_option (\<lambda>x. if x = Undefined \<and> under_key p then Null
                           else replaceUndefinedWithNull x) (at nested_sample p)" by blast
  show ?thesis using wf t p[of "[Key ''a'']"] p[of "[Key ''b'', Idx 0]"]
      p[of "[Key ''b'', Idx 2, Key ''c'']"] p[of "[Key ''b'', Idx 2, Key ''d'']"]
    by (simp add: a b c d)
qed

text \<open>
  C5 as stated fails: the \<^verbatim>\<open>undefined\<close> element of \<^verbatim>\<open>[1, undefined]\<close> is not replaced.
\<close>

theorem sanitizer_keeps_undefined_array_elements:
  "replaceUndefinedWithNull (Arr [Num 1, Undefined]) = Arr [Num 1, Undefined]
   \<and> replaceUndefinedWithNull (Arr [Num 1, Undefined]) \<noteq> Arr [Num 1, Null]"
  by simp

section \<open>Properties of the translation cache\<close>

text \<open>
  \<^bold>\<open>C9\<close>. A lookup returns the stored result exactly when the key has an entry whose age
  (\<^verbatim>\<open>Date.now() - timestamp\<close>) is under the five minutes of \<open>CACHE_DURATION\<close>, leaving the
  cache as it is. An entry whose age has reached the window is not returned: the lookup
  deletes it from the cache and reports a miss (\<^verbatim>\<open>null\<close>). Without an entry the lookup
  reports a miss and the cache is unchanged.
\<close>

theorem getCachedResult_returns_only_fresh_entries:
  "(\<forall>e. c k = Some e \<and> now - timestamp e < 5 * 60 * 1000 \<longrightarrow>
        getCachedResult c now k = (result e, c))
   \<and> (\<forall>e. c k = Some e \<and> 5 * 60 * 1000 \<le> now - timestamp e \<longrightarrow>
        getCachedResult c now k = (Null, c(k := None)))
   \<and> (c k = None \<longrightarrow> getCachedResult c now k = (Null, c))
   \<and> (fst (getCachedResult c now k) \<noteq> Null \<longrightarrow>
        (\<exists>e. c k = Some e \<and> now - timestamp e < 5 * 60 * 1000
           \<and> getCachedResult c now k = (result e, c)))"
proof (cases "c k")
  case None
  then show ?thesis by (simp add: getCachedResult_def)
next
  case (Some e)
  then show ?thesis
    by (cases "now - timestamp e < 300000") (simp_all add: getCachedResult_def CACHE_DURATION_def)
qed

text \<open>
  The theorem on a cache with one entry stored at time 1000: a hit one millisecond before
  the window ends, a miss with deletion when it ends, a miss on another key.
\<close>

theorem getCachedResult_returns_only_fresh_entries_witness:
  "getCachedResult one_entry_cache 300999 ''hello-en-fr'' = (Str ''bonjour'', one_entry_cache)
   \<and> getCachedResult one_entry_cache 301000 ''hello-en-fr''
       = (Null, one_entry_cache(''hello-en-fr'' := None))
   \<and> getCachedResult one_entry_cache 2000 ''bye-en-fr'' = (Null, one_entry_cache)"
proof -
  let ?e = "\<lparr>result = Str ''bonjour'', timestamp = 1000\<rparr>"
  have e: "one_entry_cache ''hello-en-fr'' = Some ?e"
    and n: "one_entry_cache ''bye-en-fr'' = None"
    by (simp_all add: one_entry_cache_def empty_cache_def)
  have fresh: "one_entry_cache ''hello-en-fr'' = Some ?e \<and> 300999 - timestamp ?e < 5 * 60 * 1000"
    using e by simp
  have stale: "one_entry_cache ''hello-en-fr'' = Some ?e \<and> 5 * 60 * 1000 \<le> 301000 - timestamp ?e"
    using e by simp
  have 1: "getCachedResult one_entry_cache 300999 ''hello-en-fr'' = (result ?e, one_entry_cache)"
    using getCachedResult_returns_only_fresh_entries[of one_entry_cache "''hello-en-fr''" 300999]
      fresh by blast
  have 2: "getCachedResult one_entry_cache 301000 ''hello-en-fr''
       = (Null, one_entry_cache(''hello-en-fr'' := None))"
    using getCachedResult_returns_only_fresh_entries[of one_entry_cache "''hello-en-fr''" 301000]
      stale by blast
  have 3: "getCachedResult one_entry_cache 2000 ''bye-en-fr'' = (Null, one_entry_cache)"
    using getCachedResult_returns_only_fresh_entries[of one_entry_cache "''bye-en-fr''" 2000]
      n by blast
  from 1 2 3 show ?thesis by simp
qed

text \<open>
  \<^bold>\<open>C10\<close>. \<open>getCacheKey\<close> is not injective: the text \<^verbatim>\<open>a\<close> with target locale \<^verbatim>\<open>en-fr\<close> and
  the text \<^verbatim>\<open>a-en\<close> with target locale \<^verbatim>\<open>fr\<close> (source \<^verbatim>\<open>en\<close> in both) are different
  requests with the same key \<^verbatim>\<open>a-en-en-fr\<close>. So \<^verbatim>\<open>/localization\<close> answers the second
  request, made one second after the first, with the translation cached for the first,
  without calling the translation service; on an empty cache the second request gets its
  own translation.
\<close>

theorem getCacheKey_collision:
  "getCacheKey sfy (Str ''a'') ''en'' ''en-fr'' = getCacheKey sfy (Str ''a-en'') ''en'' ''fr''
   \<and> (Str ''a'', ''en'', ''en-fr'') \<noteq> (Str ''a-en'', ''en'', ''fr'')
   \<and> fst (localization (translator_at 0) first_text empty_lstate)
       = \<lparr>http_status = 200, http_body = Obj [(''result'', Arr [Str ''a'', Str ''en'', Str ''en-fr''])]\<rparr>
   \<and> fst (localization (translator_at 1000) second_text
            (snd (localization (translator_at 0) first_text empty_lstate)))
       = \<lparr>http_status = 200, http_body = Obj [(''result'', Arr [Str ''a'', Str ''en'', Str ''en-fr''])]\<rparr>
   \<and> translator_calls (snd (localization (translator_at 1000) second_text
            (snd (localization (translator_at 0) first_text empty_lstate))))
       = [(Str ''a'', ''en'', ''en-fr'')]
   \<and> fst (localization (translator_at 1000) second_text empty_lstate)
       = \<lparr>http_status = 200, http_body = Obj [(''result'', Arr [Str ''a-en'', Str ''en'', Str ''fr''])]\<rparr>"
proof -
  let ?r = "Arr [Str ''a'', Str ''en'', Str ''en-fr'']"
  have k: "getCacheKey sfy (Str ''a'') ''en'' ''en-fr'' = getCacheKey sfy (Str ''a-en'') ''en'' ''fr''"
    by (simp add: getCacheKey_def)
  have s1: "localization (translator_at 0) first_text empty_lstate =
      (\<lparr>http_status = 200, http_body = Obj [(''result'', ?r)]\<rparr>,
       \<lparr>tcache = empty_cache(''a-en-en-fr'' \<mapsto> \<lparr>result = ?r, timestamp = 0\<rparr>),
        translator_calls = [(Str ''a'', ''en'', ''en-fr'')]\<rparr>)"
    by (simp add: getCacheKey_def localization_def translator_at_def first_text_def
        empty_lstate_def empty_cache_def default_en_def getCachedResult_def setCachedResult_def
        echo_translate_def Let_def)
  have s2: "localization (translator_at 1000) second_text
      \<lparr>tcache = empty_cache(''a-en-en-fr'' \<mapsto> \<lparr>result = ?r, timestamp = 0\<rparr>),
       translator_calls = [(Str ''a'', ''en'', ''en-fr'')]\<rparr> =
      (\<lparr>http_status = 200, http_body = Obj [(''result'', ?r)]\<rparr>,
       \<lparr>tcache = empty_cache(''a-en-en-fr'' \<mapsto> \<lparr>result = ?r, timestamp = 0\<rparr>),
        translator_calls = [(Str ''a'', ''en'', ''en-fr'')]\<rparr>)"
    by (simp add: getCacheKey_def localization_def translator_at_def second_text_def
        default_en_def getCachedResult_def CACHE_DURATION_def Let_def)
  have s3: "fst (localization (translator_at 1000) second_text empty_lstate)
       = \<lparr>http_status = 200, http_body = Obj [(''result'', Arr [Str ''a-en'', Str ''en'', Str ''fr''])]\<rparr>"
    by (simp add: getCacheKey_def localization_def translator_at_def second_text_def
        empty_lstate_def empty_cache_def default_en_def getCachedResult_def setCachedResult_def
        echo_translate_def Let_def)
  show ?thesis using k s3 by (simp add: s1 s2)
qed

section \<open>Properties of the quota gate\<close>

text \<open>
  \<^bold>\<open>C3\<close> (amended). \<open>checkQuota\<close> returns \<^verbatim>\<open>true\<close> when the entitlement call throws, and
  when it resolves to \<^verbatim>\<open>undefined\<close> or \<^verbatim>\<open>null\<close> (destructuring \<^verbatim>\<open>data\<close> throws inside the
  \<^verbatim>\<open>try\<close>). When the call returns a response, \<open>checkQuota\<close> returns \<^verbatim>\<open>data.allowed\<close> if that is
  neither \<^verbatim>\<open>undefined\<close> nor \<^verbatim>\<open>null\<close>, and \<^verbatim>\<open>false\<close> otherwise: an explicit
  \<^verbatim>\<open>allowed: false\<close> gives \<^verbatim>\<open>false\<close>, and so does a response without \<^verbatim>\<open>data\<close> or without an
  \<^verbatim>\<open>allowed\<close> field (\<^verbatim>\<open>data?.allowed ?? false\<close>).
\<close>

theorem checkQuota_fails_open_on_throw_only:
  "(check f c = Throws \<longrightarrow> checkQuota check f c = Bool True)
   \<and> (check f c = Returns Undefined \<or> check f c = Returns Null \<longrightarrow>
        checkQuota check f c = Bool True)
   \<and> (\<forall>r. check f c = Returns r \<and> get_prop (get_prop r ''data'') ''allowed'' = Bool False \<longrightarrow>
        checkQuota check f c = Bool False)
   \<and> (\<forall>r. check f c = Returns r \<and> r \<noteq> Undefined \<and> r \<noteq> Null
          \<and> (get_prop (get_prop r ''data'') ''allowed'' = Undefined
               \<or> get_prop (get_prop r ''data'') ''allowed'' = Null) \<longrightarrow>
        checkQuota check f c = Bool False)
   \<and> (\<forall>r. check f c = Returns r \<and> r \<noteq> Undefined \<and> r \<noteq> Null
          \<and> get_prop (get_prop r ''data'') ''allowed'' \<noteq> Undefined
          \<and> get_prop (get_prop r ''data'') ''allowed'' \<noteq> Null \<longrightarrow>
        checkQuota check f c = get_prop (get_prop r ''data'') ''allowed'')"
  by (auto simp: checkQuota_def nullish_def)

text \<open>
  The theorem on a service that throws, one that denies, one that answers without an
  \<^verbatim>\<open>allowed\<close> field and one that allows.
\<close>

theorem checkQuota_fails_open_on_throw_only_witness:
  "checkQuota check_throws ''error'' (Str ''c1'') = Bool True
   \<and> checkQuota check_denies ''error'' (Str ''c1'') = Bool False
   \<and> checkQuota check_no_allowed ''error'' (Str ''c1'') = Bool False
   \<and> checkQuota check_allows ''error'' (Str ''c1'') = Bool True"
proof -
  let ?deny = "Obj [(''data'', Obj [(''allowed'', Bool False)])]"
  let ?none = "Obj [(''data'', Obj [])]"
  let ?allow = "Obj [(''data'', Obj [(''allowed'', Bool True)])]"
  have "check_throws ''error'' (Str ''c1'') = Throws"
    by (simp add: check_throws_def)
  with checkQuota_fails_open_on_throw_only[of check_throws "''error''" "Str ''c1''"]
  have 1: "checkQuota check_throws ''error'' (Str ''c1'') = Bool True" by blast
  have "check_denies ''error'' (Str ''c1'') = Returns ?deny
      \<and> get_prop (get_prop ?deny ''data'') ''allowed'' = Bool False"
    by (simp add: check_denies_def)
  with checkQuota_fails_open_on_throw_only[of check_denies "''error''" "Str ''c1''"]
  have 2: "checkQuota check_denies ''error'' (Str ''c1'') = Bool False" by blast
  have "check_no_allowed ''error'' (Str ''c1'') = Returns ?none \<and> ?none \<noteq> Undefined
      \<and> ?none \<noteq> Null \<and> (get_prop (get_prop ?none ''data'') ''allowed'' = Undefined
        \<or> get_prop (get_prop ?none ''data'') ''allowed'' = Null)"
    by (simp add: check_no_allowed_def)
  with checkQuota_fails_open_on_throw_only[of check_no_allowed "''error''" "Str ''c1''"]
  have 3: "checkQuota check_no_allowed ''error'' (Str ''c1'') = Bool False" by blast
  have a: "check_allows ''error'' (Str ''c1'') = Returns ?allow \<and> ?allow \<noteq> Undefined
      \<and> ?allow \<noteq> Null \<and> get_prop (get_prop ?allow ''data'') ''allowed'' \<noteq> Undefined
      \<and> get_prop (get_prop ?allow ''data'') ''allowed'' \<noteq> Null"
    by (simp add: check_allows_def)
  with checkQuota_fails_open_on_throw_only[of check_allows "''error''" "Str ''c1''"]
  have "checkQuota check_allows ''error'' (Str ''c1'') = get_prop (get_prop ?allow ''data'') ''allowed''"
    by blast
  then have 4: "checkQuota check_allows ''error'' (Str ''c1'') = Bool True" by simp
  from 1 2 3 4 show ?thesis by simp
qed

text \<open>
  C3 as stated fails: on the malformed response \<^verbatim>\<open>{ data: {} }\<close> the gate returns
  \<^verbatim>\<open>false\<close>, not \<^verbatim>\<open>true\<close>.
\<close>

theorem checkQuota_denies_without_allowed_field:
  "checkQuota check_no_allowed ''error'' (Str ''c1'') = Bool False
   \<and> checkQuota check_no_allowed ''error'' (Str ''c1'') \<noteq> Bool True"
  by (simp add: checkQuota_def check_no_allowed_def nullish_def)

section \<open>Properties of the ingestion handlers\<close>

lemma env_with_simps:
  "autumn_check (env_with chk ins) = chk"
  "insert_error (env_with chk ins) = ins"
  "userId (env_with chk ins) = Null"
  by (simp_all add: env_with_def)

lemma checkQuota_samples:
  "checkQuota check_allows f c = Bool True"
  "checkQuota check_denies f c = Bool False"
  by (simp_all add: checkQuota_def check_allows_def check_denies_def nullish_def)

text \<open>
  \<^bold>\<open>C7\<close>. On each of the three ingestion routes, when the quota gate returns \<^verbatim>\<open>false\<close>
  for the route's feature tag and the body's \<^verbatim>\<open>client_id\<close>, the handler answers 429 with
  an error body and calls neither \<^verbatim>\<open>clickhouse.insert\<close> nor anything else: the list of
  inserts, and the whole world, is as before the request.
\<close>

theorem rejected_quota_never_inserts:
  assumes "checkQuota (autumn_check e) (feature_of r) (get_prop body ''client_id'') = Bool False"
  shows "http_status (fst (handle r e body w)) = 429
    \<and> get_prop (http_body (fst (handle r e body w))) ''status'' = Str ''error''
    \<and> inserts (snd (handle r e body w)) = inserts w
    \<and> snd (handle r e body w) = w"
  using assms by (cases r) (simp_all add: ingest_def log_def track_404_def quota_exceeded_def)

text \<open>
  The theorem on the three routes with an entitlement service that denies.
\<close>

theorem rejected_quota_never_inserts_witness:
  "checkQuota (autumn_check (env_with check_denies None)) (feature_of Log)
      (get_prop log_body ''client_id'') = Bool False
   \<and> http_status (fst (handle Log (env_with check_denies None) log_body empty_world)) = 429
   \<and> inserts (snd (handle Log (env_with check_denies None) log_body empty_world)) = []
   \<and> http_status (fst (handle Ingest (env_with check_denies None) error_body empty_world)) = 429
   \<and> inserts (snd (handle Ingest (env_with check_denies None) error_body empty_world)) = []
   \<and> http_status (fst (handle Track404 (env_with check_denies None) log_body empty_world)) = 429
   \<and> inserts (snd (handle Track404 (env_with check_denies None) log_body empty_world)) = []"
proof -
  have d: "\<And>r b. checkQuota (autumn_check (env_with check_denies None)) (feature_of r)
      (get_prop b ''client_id'') = Bool False"
    by (simp add: env_with_simps checkQuota_samples)
  have w: "inserts empty_world = []" by (simp add: empty_world_def)
  show ?thesis
    using d[of Log log_body] w
      rejected_quota_never_inserts[OF d[of Log log_body], of empty_world]
      rejected_quota_never_inserts[OF d[of Ingest error_body], of empty_world]
      rejected_quota_never_inserts[OF d[of Track404 log_body], of empty_world]
    by simp
qed

lemma ingest_insert_failure:
  assumes "truthy (checkQuota (autumn_check e) ''error'' (get_prop body ''client_id''))"
    and "insert_error e = Some m"
  shows "fst (ingest e body w) =
    \<lparr>http_status = 200,
     http_body = Obj [(''status'', Str ''error''), (''message'', Str ''Failed to process error'')]\<rparr>"
  using assms by (simp add: ingest_def Let_def)

text \<open>
  \<^bold>\<open>C2\<close> (the code departs from the claim). An \<^verbatim>\<open>/ingest\<close> request passes the quota check
  and \<^verbatim>\<open>clickhouse.insert\<close> throws: the \<^verbatim>\<open>catch\<close> returns the error body without setting
  \<^verbatim>\<open>set.status\<close>, so the response has status 200, not 500.
\<close>

theorem ingest_insert_failure_answers_200:
  "fst (ingest (env_with check_allows (Some ''connection refused'')) error_body empty_world) =
     \<lparr>http_status = 200,
      http_body = Obj [(''status'', Str ''error''), (''message'', Str ''Failed to process error'')]\<rparr>
   \<and> http_status
        (fst (ingest (env_with check_allows (Some ''connection refused'')) error_body empty_world))
       \<noteq> 500"
proof -
  have "truthy (checkQuota (autumn_check (env_with check_allows (Some ''connection refused'')))
      ''error'' (get_prop error_body ''client_id''))"
    by (simp add: env_with_simps checkQuota_samples)
  from ingest_insert_failure[OF this, of "''connection refused''" empty_world]
  show ?thesis by (simp add: env_with_simps)
qed

section \<open>Properties of the translation handlers\<close>

text \<open>
  \<^bold>\<open>C6\<close> (the code departs from the claim). \<^verbatim>\<open>/localization/object\<close> with the content
  \<^verbatim>\<open>{ greeting: "hello" }\<close>, source \<^verbatim>\<open>en\<close> and target \<^verbatim>\<open>fr\<close>, on an empty cache: the
  translation service is called with the target locale \<^verbatim>\<open>ar\<close>, the response is that
  translation, and it is cached under the key of the requested target \<^verbatim>\<open>fr\<close>.
\<close>

theorem localization_object_translates_to_ar:
  "translator_calls (snd (localization_object (translator_at 0) greeting_to_fr empty_lstate))
     = [(greeting, ''en'', ''ar'')]
   \<and> fst (localization_object (translator_at 0) greeting_to_fr empty_lstate)
     = \<lparr>http_status = 200, http_body = Obj [(''result'', Arr [greeting, Str ''en'', Str ''ar''])]\<rparr>
   \<and> tcache (snd (localization_object (translator_at 0) greeting_to_fr empty_lstate))
        (getCacheKey sample_stringify greeting ''en'' ''fr'')
     = Some \<lparr>result = Arr [greeting, Str ''en'', Str ''ar''], timestamp = 0\<rparr>"
proof -
  have c: "truthy greeting" "typeof_object greeting" "\<And>s. greeting \<noteq> Str s"
    by (simp_all add: greeting_def)
  have k: "getCacheKey sample_stringify greeting ''en'' ''fr'' = ''{\"greeting\":\"hello\"}-en-fr''"
    by (simp add: getCacheKey_def sample_stringify_def greeting_def)
  have "localization_object (translator_at 0) greeting_to_fr empty_lstate =
    (\<lparr>http_status = 200, http_body = Obj [(''result'', Arr [greeting, Str ''en'', Str ''ar''])]\<rparr>,
     \<lparr>tcache = empty_cache(''{\"greeting\":\"hello\"}-en-fr'' \<mapsto>
         \<lparr>result = Arr [greeting, Str ''en'', Str ''ar''], timestamp = 0\<rparr>),
      translator_calls = [(greeting, ''en'', ''ar'')]\<rparr>)"
    by (simp add: localization_object_def translator_at_def greeting_to_fr_def c k
        empty_lstate_def empty_cache_def default_en_def getCachedResult_def setCachedResult_def
        echo_translate_def Let_def)
  then show ?thesis by (simp add: k)
qed

text \<open>So the translation service is not asked for the requested target locale.\<close>

theorem localization_object_translates_to_ar_witness:
  "translator_calls (snd (localization_object (translator_at 0) greeting_to_fr empty_lstate))
     \<noteq> [(greeting, ''en'', ''fr'')]"
  using localization_object_translates_to_ar by simp

section \<open>Properties of the timestamp normalizer\<close>

text \<open>
  The decimal numeral of a number below 10000 digit by digit, and what \<open>pad\<close> gives on
  the ranges of the getters.
\<close>

declare decimal.simps [simp del]

lemma decimal_one_digit: "n < 10 \<Longrightarrow> decimal n = [digit_char n]"
  by (subst decimal.simps) simp

lemma decimal_two_digits: "10 \<le> n \<Longrightarrow> n < 100 \<Longrightarrow> decimal n = two_digits n"
  by (subst decimal.simps) (simp add: decimal_one_digit two_digits_def)

lemma div_10_10: "(n::nat) div 10 div 10 = n div 100"
  by (simp add: div_mult2_eq[symmetric])

lemma div_10_100: "(n::nat) div 10 div 100 = n div 1000"
  by (simp add: div_mult2_eq[symmetric])

lemma decimal_three_digits: "100 \<le> n \<Longrightarrow> n < 1000 \<Longrightarrow> decimal n = three_digits n"
proof -
  assume a: "100 \<le> n" "n < 1000"
  then have "10 \<le> n div 10" "n div 10 < 100" by auto
  then have "decimal (n div 10) = two_digits (n div 10)" by (rule decimal_two_digits)
  with a show ?thesis
    by (subst decimal.simps) (simp add: two_digits_def three_digits_def div_10_10)
qed

lemma decimal_four_digits: "1000 \<le> n \<Longrightarrow> n < 10000 \<Longrightarrow> decimal n = four_digits n"
proof -
  assume a: "1000 \<le> n" "n < 10000"
  then have "100 \<le> n div 10" "n div 10 < 1000" by auto
  then have "decimal (n div 10) = three_digits (n div 10)" by (rule decimal_three_digits)
  with a show ?thesis
    by (subst decimal.simps) (simp add: three_digits_def four_digits_def div_10_10 div_10_100)
qed

lemma digit_char_0: "digit_char 0 = CHR ''0''"
  by (simp add: digit_char_def)

lemma pad_two: "n < 100 \<Longrightarrow> pad n 2 = two_digits n"
proof (cases "n < 10")
  case True
  then show ?thesis
    by (simp add: pad_def padStart_def decimal_one_digit two_digits_def digit_char_0)
next
  case False
  assume "n < 100"
  with False have "decimal n = two_digits n" by (simp add: decimal_two_digits)
  then show ?thesis by (simp add: pad_def padStart_def two_digits_def)
qed

lemma pad_three: "n < 1000 \<Longrightarrow> pad n 3 = three_digits n"
proof -
  assume a: "n < 1000"
  consider "n < 10" | "10 \<le> n" "n < 100" | "100 \<le> n" by linarith
  then show ?thesis
  proof cases
    case 1
    then show ?thesis
      by (simp add: pad_def padStart_def decimal_one_digit three_digits_def digit_char_0
          numeral_3_eq_3)
  next
    case 2
    then have "decimal n = two_digits n" by (rule decimal_two_digits)
    with 2 show ?thesis
      by (simp add: pad_def padStart_def two_digits_def three_digits_def digit_char_0)
  next
    case 3
    with a have "decimal n = three_digits n" by (simp add: decimal_three_digits)
    then show ?thesis by (simp add: pad_def padStart_def three_digits_def)
  qed
qed

lemma String_four_digits: "1000 \<le> y \<Longrightarrow> y \<le> 9999 \<Longrightarrow> String y = four_digits (nat y)"
  by (simp add: String_def decimal_four_digits)

lemma format_in_range:
  assumes "in_range d"
  shows "toCHDateTime64 nd (DateObject (ValidDate d)) = Str (String (getFullYear d) @ spec_tail d)"
  using assms by (simp add: toCHDateTime64_def in_range_def pad_two pad_three spec_tail_def)

lemma toCHDateTime64_Value:
  "toCHDateTime64 nd (Value v) =
     (if truthy v then toCHDateTime64 nd (DateObject (nd v)) else Null)"
  by (simp add: toCHDateTime64_def)

lemma sample_now_text:
  "toCHDateTime64 nd (DateObject (ValidDate sample_now)) = Str ''2024-01-02 03:04:05.006''"
proof -
  have r: "in_range sample_now" by (simp add: in_range_def sample_now_def)
  have y: "String (getFullYear sample_now) = ''2024''"
    by (simp add: sample_now_def String_four_digits four_digits_def digit_char_def)
  have t: "spec_tail sample_now = ''-01-02 03:04:05.006''"
    by (simp add: sample_now_def spec_tail_def two_digits_def three_digits_def digit_char_def)
  show ?thesis by (simp add: format_in_range[OF r] y t)
qed

text \<open>
  \<^bold>\<open>C8\<close> (amended). \<open>toCHDateTime64\<close> returns \<^verbatim>\<open>null\<close> for a falsy argument (\<^verbatim>\<open>null\<close>,
  \<^verbatim>\<open>undefined\<close>, the empty string, 0, \<^verbatim>\<open>NaN\<close>) and for an argument that \<^verbatim>\<open>new Date\<close> makes an
  invalid date of; it has no failing branch. For every other argument it returns the year
  as the plain decimal numeral of \<^verbatim>\<open>getFullYear()\<close>, not padded, followed by the 19
  characters \<^verbatim>\<open>-MM-DD HH:MM:SS.mmm\<close> of the local-time getters, two digits each and three for
  the milliseconds. For the years 1000 to 9999 this is the 23-character format
  \<^verbatim>\<open>YYYY-MM-DD HH:MM:SS.mmm\<close>; the date of 2 January 2024, 03:04:05.006 gives
  \<^verbatim>\<open>2024-01-02 03:04:05.006\<close>.
\<close>

theorem toCHDateTime64_format:
  "(falsy_date x \<longrightarrow> toCHDateTime64 nd x = Null)
   \<and> (new_Date nd x = InvalidDate \<longrightarrow> toCHDateTime64 nd x = Null)
   \<and> (\<forall>d. \<not> falsy_date x \<and> new_Date nd x = ValidDate d \<and> in_range d \<longrightarrow>
         toCHDateTime64 nd x = Str (String (getFullYear d) @ spec_tail d)
         \<and> length (spec_tail d) = 19)
   \<and> (\<forall>d. \<not> falsy_date x \<and> new_Date nd x = ValidDate d \<and> in_range d
           \<and> 1000 \<le> getFullYear d \<and> getFullYear d \<le> 9999 \<longrightarrow>
         toCHDateTime64 nd x = Str (spec_format d) \<and> length (spec_format d) = 23)
   \<and> toCHDateTime64 nd (DateObject (ValidDate sample_now)) = Str ''2024-01-02 03:04:05.006''"
proof -
  have 1: "falsy_date x \<longrightarrow> toCHDateTime64 nd x = Null"
    by (simp add: toCHDateTime64_def)
  have 2: "new_Date nd x = InvalidDate \<longrightarrow> toCHDateTime64 nd x = Null"
    by (simp add: toCHDateTime64_def)
  have v: "toCHDateTime64 nd x = toCHDateTime64 nd (DateObject (ValidDate d))"
    if "\<not> falsy_date x" "new_Date nd x = ValidDate d" for d
    using that by (simp add: toCHDateTime64_def)
  have 3: "toCHDateTime64 nd x = Str (String (getFullYear d) @ spec_tail d)
      \<and> length (spec_tail d) = 19"
    if "\<not> falsy_date x \<and> new_Date nd x = ValidDate d \<and> in_range d" for d
    using that v[of d] format_in_range[of d nd]
    by (simp add: spec_tail_def two_digits_def three_digits_def)
  have 4: "toCHDateTime64 nd x = Str (spec_format d) \<and> length (spec_format d) = 23"
    if "\<not> falsy_date x \<and> new_Date nd x = ValidDate d \<and> in_range d
           \<and> 1000 \<le> getFullYear d \<and> getFullYear d \<le> 9999" for d
    using that 3[of d]
    by (simp add: spec_format_def String_four_digits) (simp add: four_digits_def)
  from 1 2 3 4 sample_now_text show ?thesis by blast
qed

text \<open>
  The theorem on \<^verbatim>\<open>null\<close>, \<^verbatim>\<open>undefined\<close>, the empty string, a string that does not parse and
  one that does.
\<close>

theorem toCHDateTime64_format_witness:
  "toCHDateTime64 sample_newDate (Value Null) = Null
   \<and> toCHDateTime64 sample_newDate (Value Undefined) = Null
   \<and> toCHDateTime64 sample_newDate (Value (Str [])) = Null
   \<and> toCHDateTime64 sample_newDate (Value (Str ''not-a-date'')) = Null
   \<and> toCHDateTime64 sample_newDate (Value (Str ''2024-01-02T03:04:05.006''))
       = Str ''2024-01-02 03:04:05.006''"
proof -
  have f: "falsy_date (Value Null)" "falsy_date (Value Undefined)" "falsy_date (Value (Str []))"
    by simp_all
  have i: "new_Date sample_newDate (Value (Str ''not-a-date'')) = InvalidDate"
    by (simp add: sample_newDate_def)
  let ?x = "Value (Str ''2024-01-02T03:04:05.006'')"
  have p: "\<not> falsy_date ?x \<and> new_Date sample_newDate ?x = ValidDate sample_now
      \<and> in_range sample_now \<and> 1000 \<le> getFullYear sample_now \<and> getFullYear sample_now \<le> 9999"
    by (simp add: sample_newDate_def sample_now_def in_range_def)
  have s: "spec_format sample_now = ''2024-01-02 03:04:05.006''"
    by (simp add: spec_format_def spec_tail_def sample_now_def four_digits_def two_digits_def
        three_digits_def digit_char_def)
  from toCHDateTime64_format[of "Value Null" sample_newDate] f(1)
  have 1: "toCHDateTime64 sample_newDate (Value Null) = Null" by blast
  from toCHDateTime64_format[of "Value Undefined" sample_newDate] f(2)
  have 2: "toCHDateTime64 sample_newDate (Value Undefined) = Null" by blast
  from toCHDateTime64_format[of "Value (Str [])" sample_newDate] f(3)
  have 3: "toCHDateTime64 sample_newDate (Value (Str [])) = Null" by blast
  from toCHDateTime64_format[of "Value (Str ''not-a-date'')" sample_newDate] i
  have 4: "toCHDateTime64 sample_newDate (Value (Str ''not-a-date'')) = Null" by blast
  from toCHDateTime64_format[of ?x sample_newDate] p
  have "toCHDateTime64 sample_newDate ?x = Str (spec_format sample_now)" by blast
  with s have 5: "toCHDateTime64 sample_newDate ?x = Str ''2024-01-02 03:04:05.006''" by simp
  from 1 2 3 4 5 show ?thesis by simp
qed

text \<open>
  C8 as stated fails for a year below 1000: the year of \<^verbatim>\<open>0999-01-02T03:04:05.006\<close> is
  rendered with three digits.
\<close>

theorem toCHDateTime64_year_not_padded:
  "toCHDateTime64 sample_newDate (Value (Str ''0999-01-02T03:04:05.006''))
     = Str ''999-01-02 03:04:05.006''
   \<and> toCHDateTime64 sample_newDate (Value (Str ''0999-01-02T03:04:05.006''))
     \<noteq> Str ''0999-01-02 03:04:05.006''"
proof -
  have r: "in_range year_999" by (simp add: in_range_def year_999_def)
  have y: "String (getFullYear year_999) = ''999''"
    by (simp add: year_999_def String_def decimal_three_digits three_digits_def digit_char_def)
  have t: "spec_tail year_999 = ''-01-02 03:04:05.006''"
    by (simp add: year_999_def spec_tail_def two_digits_def three_digits_def digit_char_def)
  have "toCHDateTime64 sample_newDate (Value (Str ''0999-01-02T03:04:05.006''))
     = toCHDateTime64 sample_newDate (DateObject (ValidDate year_999))"
    by (simp add: toCHDateTime64_Value sample_newDate_def)
  then show ?thesis by (simp add: format_in_range[OF r] y t)
qed

section \<open>Properties of the assembled records\<close>

text \<open>
  An object literal has distinct keys, so the sanitizer maps over its properties; the row
  that each handler hands to \<^verbatim>\<open>clickhouse.insert\<close> once the quota gate has allowed the
  request.
\<close>

lemma map_of_set_prop:
  "map_of (set_prop k v es) k' = (if k' = k then Some v else map_of es k')"
  by (induction es) auto

lemma keys_set_prop: "fst ` set (set_prop k v es) = insert k (fst ` set es)"
proof (induction es)
  case Nil
  then show ?case by simp
next
  case (Cons e es)
  obtain k' v' where e: "e = (k', v')" by (cases e)
  show ?case
  proof (cases "k' = k")
    case True
    then show ?thesis by (simp add: e)
  next
    case False
    with Cons show ?thesis by (simp add: e insert_commute)
  qed
qed

lemma distinct_set_prop: "distinct (map fst es) \<Longrightarrow> distinct (map fst (set_prop k v es))"
proof (induction es)
  case Nil
  then show ?case by simp
next
  case (Cons e es)
  obtain k' v' where e: "e = (k', v')" by (cases e)
  show ?case
  proof (cases "k' = k")
    case True
    with Cons.prems show ?thesis by (simp add: e)
  next
    case False
    with Cons show ?thesis by (simp add: e keys_set_prop)
  qed
qed

lemma distinct_spread:
  "distinct (map fst acc) \<Longrightarrow>
   distinct (map fst (foldl (\<lambda>a (k, v). set_prop k v a) acc es))"
proof (induction es arbitrary: acc)
  case Nil
  then show ?case by simp
next
  case (Cons e es)
  obtain k v where e: "e = (k, v)" by (cases e)
  from Cons.prems have "distinct (map fst (set_prop k v acc))" by (rule distinct_set_prop)
  from Cons.IH[OF this] show ?case by (simp add: e)
qed

lemma distinct_define_init: "distinct (map fst acc) \<Longrightarrow> distinct (map fst (define_init acc i))"
  by (cases i) (simp_all add: distinct_set_prop distinct_spread)

lemma distinct_foldl_define_init:
  "distinct (map fst acc) \<Longrightarrow> distinct (map fst (foldl define_init acc inits))"
  by (induction inits arbitrary: acc) (simp_all add: distinct_define_init)

lemma sanitize_literal:
  "replaceUndefinedWithNull (object_literal inits) =
   Obj (map (\<lambda>(k, v). (k, sanitized_value v)) (foldl define_init [] inits))"
proof -
  have "distinct (map fst (foldl define_init [] inits))"
    by (rule distinct_foldl_define_init) simp
  from sanitize_obj[OF this] show ?thesis
    by (simp add: object_literal_def sanitized_value_def)
qed

lemma get_prop_sanitize_literal:
  "get_prop (replaceUndefinedWithNull (object_literal inits)) k =
   (case map_of (foldl define_init [] inits) k of
      None \<Rightarrow> Undefined | Some v \<Rightarrow> sanitized_value v)"
  by (simp add: sanitize_literal map_of_entries split: option.splits)

lemma sanitized_literal_row:
  "props_defined (replaceUndefinedWithNull (object_literal inits))
   \<and> map fst (entries (replaceUndefinedWithNull (object_literal inits)))
       = map fst (entries (object_literal inits))
   \<and> (\<forall>k. (k, Undefined) \<in> set (entries (object_literal inits)) \<longrightarrow>
         get_prop (replaceUndefinedWithNull (object_literal inits)) k = Null)"
proof -
  let ?es = "foldl define_init [] inits"
  have d: "distinct (map fst ?es)" by (rule distinct_foldl_define_init) simp
  have k: "get_prop (replaceUndefinedWithNull (object_literal inits)) k = Null"
    if "(k, Undefined) \<in> set (entries (object_literal inits))" for k
  proof -
    from that have "(k, Undefined) \<in> set ?es" by (simp add: object_literal_def)
    with d have "map_of ?es k = Some Undefined" by simp
    then show ?thesis by (simp add: get_prop_sanitize_literal sanitized_value_def)
  qed
  have m: "map fst (entries (replaceUndefinedWithNull (object_literal inits)))
       = map fst (entries (object_literal inits))"
    using map_fst_entries[of sanitized_value ?es]
    by (simp add: sanitize_literal) (simp add: object_literal_def)
  from k m sanitize_props_defined show ?thesis by blast
qed

lemma ingest_inserts:
  "truthy (checkQuota (autumn_check e) ''error'' (get_prop body ''client_id'')) \<Longrightarrow>
   inserts (snd (ingest e body w))
     = inserts w @ [(''errors'', replaceUndefinedWithNull (errorData e body))]"
  by (simp add: ingest_def Let_def clickhouse_insert_def sendRealTimeEvent_def
      split: option.splits)

lemma track_404_inserts:
  "truthy (checkQuota (autumn_check e) ''404_page_tracking'' (get_prop body ''client_id'')) \<Longrightarrow>
   inserts (snd (track_404 e body w))
     = inserts w @ [(''not_found_pages'', replaceUndefinedWithNull (notFoundData e body))]"
  by (simp add: track_404_def Let_def clickhouse_insert_def sendRealTimeEvent_def
      split: option.splits)

lemma log_inserts:
  "truthy (checkQuota (autumn_check e) ''log'' (get_prop body ''client_id'')) \<Longrightarrow>
   inserts (snd (log e body w)) = inserts w @ [(''logs'', logData e body)]"
  by (simp add: log_def Let_def clickhouse_insert_def sendRealTimeEvent_def
      split: option.splits)

lemma errorData_literal: "\<exists>inits. errorData e body = object_literal inits"
  unfolding errorData_def Let_def by (rule exI) (rule refl)

lemma notFoundData_literal: "\<exists>inits. notFoundData e body = object_literal inits"
  unfolding notFoundData_def Let_def by (rule exI) (rule refl)

lemma sample_env_simps:
  "user_agent_header (env_with chk ins) = Str ''Mozilla/5.0''"
  "UAParser (env_with chk ins) = sample_ua"
  "extractIpFromRequest (env_with chk ins) = Str ''203.0.113.7''"
  "getGeoData (env_with chk ins) = sample_geo"
  "parseDomain (env_with chk ins) = sample_domain"
  "new_date_now (env_with chk ins) = sample_now"
  "randomUUID (env_with chk ins) = ''id-1''"
  "newDate (env_with chk ins) = sample_newDate"
  by (simp_all add: env_with_def)

lemma sample_allowed:
  "truthy (checkQuota (autumn_check (env_with check_allows ins)) f c)"
  by (simp add: env_with_simps checkQuota_samples)

lemma sample_errorData:
  "errorData (env_with check_allows None) error_body = Obj [
     (''id'', Str ''id-1''), (''client_id'', Str ''c1''), (''message'', Str ''boom''),
     (''tags'', Arr []), (''occurrence_count'', Num 1), (''source'', Undefined),
     (''user_agent'', Str ''Mozilla/5.0''), (''browser_name'', Str ''Chrome''),
     (''browser_version'', Str ''126.0''), (''os_name'', Str ''Linux''),
     (''os_version'', Undefined), (''device_type'', Str ''desktop''),
     (''ip_address'', Str ''203.0.113.7''), (''country'', Str ''US''), (''region'', Undefined),
     (''city'', Str ''Austin''), (''org'', Undefined), (''postal'', Undefined),
     (''loc'', Undefined), (''first_occurrence'', Str ''2024-01-02 03:04:05.006''),
     (''last_occurrence'', Str ''2024-01-02 03:04:05.006''), (''resolved_at'', Null),
     (''created_at'', Str ''2024-01-02 03:04:05.006''),
     (''updated_at'', Str ''2024-01-02 03:04:05.006'')]"
  by (simp add: errorData_def Let_def sample_env_simps error_body_def object_literal_def
      sample_ua_def sample_geo_def nullish_def or_else_def toCHDateTime64_Value sample_now_text)

lemma sample_logData:
  "logData (env_with check_allows None) log_body = Obj [
     (''id'', Str ''id-1''), (''client_id'', Str ''c1''), (''message'', Str ''hi''),
     (''level'', Str ''info''), (''created_at'', Str ''2024-01-02 03:04:05.006'')]"
  "logData (env_with check_allows None) log_body_undefined_source = Obj [
     (''id'', Str ''id-1''), (''client_id'', Str ''c1''), (''message'', Str ''hi''),
     (''source'', Undefined), (''created_at'', Str ''2024-01-02 03:04:05.006'')]"
  by (simp_all add: logData_def sample_env_simps log_body_def log_body_undefined_source_def
      object_literal_def sample_now_text)

text \<open>
  \<^bold>\<open>C1\<close> (amended). For the error and the not-found kind, the fully assembled record is
  passed through the null sanitizer immediately before the event-store insert: the row
  handed to \<^verbatim>\<open>clickhouse.insert\<close> is \<open>replaceUndefinedWithNull\<close> of the record. No property
  of that row, at any depth, is \<^verbatim>\<open>undefined\<close>; the row has the keys of the record, in the
  same order; every property that the record has with the value \<^verbatim>\<open>undefined\<close> is
  \<^verbatim>\<open>null\<close> in the row. A field that the record does not have (an optional field that the
  body leaves out and the handler does not list) is not added.
\<close>

theorem error_and_not_found_rows_are_sanitized:
  "(truthy (checkQuota (autumn_check e) ''error'' (get_prop body ''client_id'')) \<longrightarrow>
      inserts (snd (ingest e body w))
        = inserts w @ [(''errors'', replaceUndefinedWithNull (errorData e body))])
   \<and> (truthy (checkQuota (autumn_check e) ''404_page_tracking'' (get_prop body ''client_id'')) \<longrightarrow>
      inserts (snd (track_404 e body w))
        = inserts w @ [(''not_found_pages'', replaceUndefinedWithNull (notFoundData e body))])
   \<and> (\<forall>r \<in> {errorData e body, notFoundData e body}.
        props_defined (replaceUndefinedWithNull r)
        \<and> map fst (entries (replaceUndefinedWithNull r)) = map fst (entries r)
        \<and> (\<forall>k. (k, Undefined) \<in> set (entries r) \<longrightarrow>
              get_prop (replaceUndefinedWithNull r) k = Null))"
proof -
  obtain i1 i2 where "errorData e body = object_literal i1"
    and "notFoundData e body = object_literal i2"
    using errorData_literal notFoundData_literal by blast
  then show ?thesis
    using ingest_inserts[of e body w] track_404_inserts[of e body w]
      sanitized_literal_row[of i1] sanitized_literal_row[of i2]
    by simp
qed

text \<open>
  The theorem on an error event from a browser whose parse has no OS version: the
  record's \<^verbatim>\<open>os_version\<close> is \<^verbatim>\<open>undefined\<close>, the row's is \<^verbatim>\<open>null\<close>.
\<close>

theorem error_and_not_found_rows_are_sanitized_witness:
  "truthy (checkQuota (autumn_check (env_with check_allows None)) ''error''
      (get_prop error_body ''client_id''))
   \<and> inserts (snd (ingest (env_with check_allows None) error_body empty_world))
       = [(''errors'', replaceUndefinedWithNull (errorData (env_with check_allows None) error_body))]
   \<and> props_defined (replaceUndefinedWithNull (errorData (env_with check_allows None) error_body))
   \<and> (''os_version'', Undefined) \<in> set (entries (errorData (env_with check_allows None) error_body))
   \<and> get_prop (replaceUndefinedWithNull (errorData (env_with check_allows None) error_body))
        ''os_version'' = Null"
proof -
  let ?e = "env_with check_allows None"
  note t = error_and_not_found_rows_are_sanitized[of ?e error_body empty_world]
  have a: "truthy (checkQuota (autumn_check ?e) ''error'' (get_prop error_body ''client_id''))"
    by (rule sample_allowed)
  have m: "(''os_version'', Undefined) \<in> set (entries (errorData ?e error_body))"
    by (simp add: sample_errorData)
  from t a have 1: "inserts (snd (ingest ?e error_body empty_world))
       = inserts empty_world @ [(''errors'', replaceUndefinedWithNull (errorData ?e error_body))]"
    by blast
  from t have r: "props_defined (replaceUndefinedWithNull (errorData ?e error_body))
        \<and> (\<forall>k. (k, Undefined) \<in> set (entries (errorData ?e error_body)) \<longrightarrow>
              get_prop (replaceUndefinedWithNull (errorData ?e error_body)) k = Null)"
    by blast
  with m have 2: "get_prop (replaceUndefinedWithNull (errorData ?e error_body)) ''os_version'' = Null"
    by blast
  from a 1 r m 2 show ?thesis by (simp add: empty_world_def)
qed

lemma sample_row_has_no_severity:
  "get_prop (replaceUndefinedWithNull (errorData (env_with check_allows None) error_body))
     ''severity'' = Undefined"
  by (simp add: errorData_def Let_def get_prop_sanitize_literal map_of_set_prop error_body_def)

text \<open>
  C1 as stated fails. \<^verbatim>\<open>/log\<close> inserts \<open>logData\<close> as it is: a property that is
  \<^verbatim>\<open>undefined\<close> in the body is \<^verbatim>\<open>undefined\<close> in the inserted row, and the optional fields
  that the minimal body \<^verbatim>\<open>{client_id, message, level}\<close> leaves out are absent from the row,
  not \<^verbatim>\<open>null\<close>. The sanitized row of \<^verbatim>\<open>/ingest\<close> has no \<^verbatim>\<open>null\<close> either for an optional
  field that the body leaves out and the handler does not list, such as \<^verbatim>\<open>severity\<close>.
\<close>

theorem persisted_rows_lack_nulls:
  "inserts (snd (log (env_with check_allows None) log_body_undefined_source empty_world))
     = [(''logs'', Obj [(''id'', Str ''id-1''), (''client_id'', Str ''c1''),
          (''message'', Str ''hi''), (''source'', Undefined),
          (''created_at'', Str ''2024-01-02 03:04:05.006'')])]
   \<and> inserts (snd (log (env_with check_allows None) log_body empty_world))
     = [(''logs'', Obj [(''id'', Str ''id-1''), (''client_id'', Str ''c1''),
          (''message'', Str ''hi''), (''level'', Str ''info''),
          (''created_at'', Str ''2024-01-02 03:04:05.006'')])]
   \<and> inserts (snd (ingest (env_with check_allows None) error_body empty_world))
     = [(''errors'', replaceUndefinedWithNull (errorData (env_with check_allows None) error_body))]
   \<and> get_prop (replaceUndefinedWithNull (errorData (env_with check_allows None) error_body))
        ''severity'' = Undefined"
  using log_inserts[OF sample_allowed, of None log_body_undefined_source empty_world]
    log_inserts[OF sample_allowed, of None log_body empty_world]
    ingest_inserts[OF sample_allowed, of None error_body empty_world]
  by (simp add: sample_logData sample_row_has_no_severity empty_world_def)

section \<open>Properties of the enrichment\<close>

lemma nullish_assoc: "nullish (nullish a b) c = nullish a (nullish b c)"
  by (simp add: nullish_def)

lemma errorData_ua_each:
  "get_prop (replaceUndefinedWithNull (errorData e body)) ''browser_name'' =
    sanitized_value (nullish (get_prop body ''browser_name'') (ua_derived e ''browser_name''))"
  "get_prop (replaceUndefinedWithNull (errorData e body)) ''browser_version'' =
    sanitized_value (nullish (get_prop body ''browser_version'') (ua_derived e ''browser_version''))"
  "get_prop (replaceUndefinedWithNull (errorData e body)) ''os_name'' =
    sanitized_value (nullish (get_prop body ''os_name'') (ua_derived e ''os_name''))"
  "get_prop (replaceUndefinedWithNull (errorData e body)) ''os_version'' =
    sanitized_value (nullish (get_prop body ''os_version'') (ua_derived e ''os_version''))"
  "get_prop (replaceUndefinedWithNull (errorData e body)) ''device_type'' =
    sanitized_value (nullish (get_prop body ''device_type'') (ua_derived e ''device_type''))"
  by (simp_all add: errorData_def Let_def get_prop_sanitize_literal map_of_set_prop
      ua_derived_def nullish_assoc)

lemma errorData_geo_each:
  "get_prop (replaceUndefinedWithNull (errorData e body)) ''country''
     = sanitized_value (geo_derived e ''country'')"
  "get_prop (replaceUndefinedWithNull (errorData e body)) ''region''
     = sanitized_value (geo_derived e ''region'')"
  "get_prop (replaceUndefinedWithNull (errorData e body)) ''city''
     = sanitized_value (geo_derived e ''city'')"
  "get_prop (replaceUndefinedWithNull (errorData e body)) ''org''
     = sanitized_value (geo_derived e ''org'')"
  "get_prop (replaceUndefinedWithNull (errorData e body)) ''postal''
     = sanitized_value (geo_derived e ''postal'')"
  "get_prop (replaceUndefinedWithNull (errorData e body)) ''loc''
     = sanitized_value (geo_derived e ''loc'')"
  by (simp_all add: errorData_def Let_def get_prop_sanitize_literal map_of_set_prop
      geo_derived_def)

lemma errorData_ua:
  "\<forall>k \<in> set ua_fields. get_prop (replaceUndefinedWithNull (errorData e body)) k =
     sanitized_value (nullish (get_prop body k) (ua_derived e k))"
  unfolding ua_fields_def by (simp only: list.set ball_simps errorData_ua_each simp_thms)

lemma errorData_geo:
  "\<forall>k \<in> set geo_fields. get_prop (replaceUndefinedWithNull (errorData e body)) k =
     sanitized_value (geo_derived e k)"
  unfolding geo_fields_def by (simp only: list.set ball_simps errorData_geo_each simp_thms)

text \<open>
  \<^bold>\<open>C4\<close> (amended). In the record that \<^verbatim>\<open>/ingest\<close> persists, each of browser name and
  version, OS name and version and device type is the caller's value when the body supplies
  one (neither \<^verbatim>\<open>undefined\<close> nor \<^verbatim>\<open>null\<close>): a string is kept verbatim, any other value
  as the sanitizer leaves it. Only when the body has no value is the field filled from the
  user-agent parse (\<^verbatim>\<open>desktop\<close> for an undetermined device type). The geolocation fields
  country, region, city, org, postal and loc are always the values of the geo lookup,
  whatever the body supplies.
\<close>

theorem caller_values_kept_for_user_agent_fields:
  assumes "truthy (checkQuota (autumn_check e) ''error'' (get_prop body ''client_id''))"
  shows "inserts (snd (ingest e body w))
      = inserts w @ [(''errors'', replaceUndefinedWithNull (errorData e body))]
    \<and> (\<forall>k \<in> set ua_fields. \<forall>s. get_prop body k = Str s \<longrightarrow>
          get_prop (replaceUndefinedWithNull (errorData e body)) k = Str s)
    \<and> (\<forall>k \<in> set ua_fields. get_prop body k \<noteq> Undefined \<and> get_prop body k \<noteq> Null \<longrightarrow>
          get_prop (replaceUndefinedWithNull (errorData e body)) k
            = replaceUndefinedWithNull (get_prop body k))
    \<and> (\<forall>k \<in> set ua_fields. get_prop body k = Undefined \<or> get_prop body k = Null \<longrightarrow>
          get_prop (replaceUndefinedWithNull (errorData e body)) k
            = sanitized_value (ua_derived e k))
    \<and> (\<forall>k \<in> set geo_fields.
          get_prop (replaceUndefinedWithNull (errorData e body)) k
            = sanitized_value (geo_derived e k))"
proof -
  have 1: "\<forall>k \<in> set ua_fields. \<forall>s. get_prop body k = Str s \<longrightarrow>
          get_prop (replaceUndefinedWithNull (errorData e body)) k = Str s"
    using errorData_ua[of e body] by (simp add: nullish_def sanitized_value_def)
  have 2: "\<forall>k \<in> set ua_fields. get_prop body k \<noteq> Undefined \<and> get_prop body k \<noteq> Null \<longrightarrow>
          get_prop (replaceUndefinedWithNull (errorData e body)) k
            = replaceUndefinedWithNull (get_prop body k)"
    using errorData_ua[of e body] by (simp add: nullish_def sanitized_value_def)
  have 3: "\<forall>k \<in> set ua_fields. get_prop body k = Undefined \<or> get_prop body k = Null \<longrightarrow>
          get_prop (replaceUndefinedWithNull (errorData e body)) k
            = sanitized_value (ua_derived e k)"
    using errorData_ua[of e body] by (auto simp add: nullish_def)
  from ingest_inserts[OF assms] 1 2 3 errorData_geo show ?thesis by blast
qed

text \<open>
  The theorem on a body that supplies \<^verbatim>\<open>browser_name\<close> and leaves the other fields to the
  enrichment.
\<close>

theorem caller_values_kept_for_user_agent_fields_witness:
  "truthy (checkQuota (autumn_check (env_with check_allows None)) ''error''
      (get_prop error_body_overrides ''client_id''))
   \<and> inserts (snd (ingest (env_with check_allows None) error_body_overrides empty_world))
       = [(''errors'',
           replaceUndefinedWithNull (errorData (env_with check_allows None) error_body_overrides))]
   \<and> get_prop (replaceUndefinedWithNull (errorData (env_with check_allows None) error_body_overrides))
        ''browser_name'' = Str ''Firefox''
   \<and> get_prop (replaceUndefinedWithNull (errorData (env_with check_allows None) error_body_overrides))
        ''browser_version'' = Str ''126.0''
   \<and> get_prop (replaceUndefinedWithNull (errorData (env_with check_allows None) error_body_overrides))
        ''device_type'' = Str ''desktop''
   \<and> get_prop (replaceUndefinedWithNull (errorData (env_with check_allows None) error_body_overrides))
        ''city'' = Str ''Austin''"
proof -
  let ?e = "env_with check_allows None"
  let ?row = "replaceUndefinedWithNull (errorData ?e error_body_overrides)"
  have a: "truthy (checkQuota (autumn_check ?e) ''error'' (get_prop error_body_overrides ''client_id''))"
    by (rule sample_allowed)
  note t = caller_values_kept_for_user_agent_fields[OF a, of empty_world]
  have k: "''browser_name'' \<in> set ua_fields" "''browser_version'' \<in> set ua_fields"
    "''device_type'' \<in> set ua_fields" "''city'' \<in> set geo_fields"
    by (simp_all add: ua_fields_def geo_fields_def)
  have b: "get_prop error_body_overrides ''browser_name'' = Str ''Firefox''"
    "get_prop error_body_overrides ''browser_version'' = Undefined"
    "get_prop error_body_overrides ''device_type'' = Undefined"
    by (simp_all add: error_body_overrides_def)
  have d: "sanitized_value (ua_derived ?e ''browser_version'') = Str ''126.0''"
    "sanitized_value (ua_derived ?e ''device_type'') = Str ''desktop''"
    "sanitized_value (geo_derived ?e ''city'') = Str ''Austin''"
    by (simp_all add: ua_derived_def geo_derived_def sample_env_simps sample_ua_def sample_geo_def
        sanitized_value_def nullish_def Let_def)
  from t have 0: "inserts (snd (ingest ?e error_body_overrides empty_world))
      = inserts empty_world @ [(''errors'', ?row)]" by blast
  from t k(1) b(1) have 1: "get_prop ?row ''browser_name'' = Str ''Firefox''" by blast
  from t k(2) b(2) have "get_prop ?row ''browser_version''
      = sanitized_value (ua_derived ?e ''browser_version'')" by blast
  with d(1) have 2: "get_prop ?row ''browser_version'' = Str ''126.0''" by simp
  from t k(3) b(3) have "get_prop ?row ''device_type''
      = sanitized_value (ua_derived ?e ''device_type'')" by blast
  with d(2) have 3: "get_prop ?row ''device_type'' = Str ''desktop''" by simp
  from t k(4) have "get_prop ?row ''city'' = sanitized_value (geo_derived ?e ''city'')" by blast
  with d(3) have 4: "get_prop ?row ''city'' = Str ''Austin''" by simp
  from a 0 1 2 3 4 show ?thesis by (simp add: empty_world_def)
qed

text \<open>
  C4 as stated fails for the geolocation fields: the body's \<^verbatim>\<open>country: "FR"\<close> is
  overwritten by the geo lookup's \<^verbatim>\<open>US\<close>.
\<close>

theorem caller_country_is_overwritten:
  "get_prop error_body_overrides ''country'' = Str ''FR''
   \<and> inserts (snd (ingest (env_with check_allows None) error_body_overrides empty_world))
       = [(''errors'',
           replaceUndefinedWithNull (errorData (env_with check_allows None) error_body_overrides))]
   \<and> get_prop (replaceUndefinedWithNull (errorData (env_with check_allows None) error_body_overrides))
        ''country'' = Str ''US''"
proof -
  have "sanitized_value (geo_derived (env_with check_allows None) ''country'') = Str ''US''"
    by (simp add: geo_derived_def sample_env_simps sample_geo_def sanitized_value_def)
  then show ?thesis
    using ingest_inserts[OF sample_allowed, of None error_body_overrides empty_world]
    by (simp add: errorData_geo_each error_body_overrides_def empty_world_def)
qed

end
